theory Spec2Isabelle
  imports Complex_Main "HOL-Library.Word"
begin

section \<open>Values and machine types\<close>

text \<open>
  The point buffers hold C++ floating-point values. The function under study only compares,
  selects and copies them (\<^verbatim>\<open>std::min\<close>, \<^verbatim>\<open>std::max\<close>, \<^verbatim>\<open>==\<close>, assignment and the exact
  widening of \<^verbatim>\<open>float\<close> to \<^verbatim>\<open>double\<close>), so no rounding ever takes place. A value is therefore
  either not-a-number, one of the two infinities, or a finite real. The two signed zeros are
  identified.
\<close>

datatype fp = NaN | NegInf | Finite real | PosInf

text \<open>The built-in \<^verbatim>\<open>a < b\<close> and \<^verbatim>\<open>a == b\<close> on floating-point values: both are false as soon as
  one side is not-a-number.\<close>

fun fp_less :: "fp \<Rightarrow> fp \<Rightarrow> bool" where
  "fp_less NaN b = False"
| "fp_less a NaN = False"
| "fp_less NegInf NegInf = False"
| "fp_less NegInf b = True"
| "fp_less (Finite x) NegInf = False"
| "fp_less (Finite x) (Finite y) = (x < y)"
| "fp_less (Finite x) PosInf = True"
| "fp_less PosInf b = False"

fun fp_eq :: "fp \<Rightarrow> fp \<Rightarrow> bool" where
  "fp_eq NaN b = False"
| "fp_eq a NaN = False"
| "fp_eq a b = (a = b)"

definition fp_le :: "fp \<Rightarrow> fp \<Rightarrow> bool" where
  "fp_le a b = (fp_less a b \<or> fp_eq a b)"

text \<open>\<^verbatim>\<open>std::min(a, b)\<close> is \<^verbatim>\<open>(b < a) ? b : a\<close> and \<^verbatim>\<open>std::max(a, b)\<close> is \<^verbatim>\<open>(a < b) ? b : a\<close>.\<close>

definition std_min :: "fp \<Rightarrow> fp \<Rightarrow> fp" where
  "std_min a b = (if fp_less b a then b else a)"

definition std_max :: "fp \<Rightarrow> fp \<Rightarrow> fp" where
  "std_max a b = (if fp_less a b then b else a)"

text \<open>The template parameter \<^verbatim>\<open>COORDTYPE\<close>: the function is instantiated for \<^verbatim>\<open>float\<close> and for
  \<^verbatim>\<open>double\<close>. \<^verbatim>\<open>std::numeric_limits<T>::max()\<close> is the largest finite value of the type and
  \<^verbatim>\<open>lowest()\<close> its negation.\<close>

datatype COORDTYPE = COORD_float | COORD_double

definition FLT_MAX :: real where
  "FLT_MAX = 2 ^ 128 - 2 ^ 104"

definition DBL_MAX :: real where
  "DBL_MAX = 2 ^ 1024 - 2 ^ 971"

fun limit_max :: "COORDTYPE \<Rightarrow> real" where
  "limit_max COORD_float = FLT_MAX"
| "limit_max COORD_double = DBL_MAX"

definition numeric_limits_max :: "COORDTYPE \<Rightarrow> fp" where
  "numeric_limits_max T = Finite (limit_max T)"

definition numeric_limits_lowest :: "COORDTYPE \<Rightarrow> fp" where
  "numeric_limits_lowest T = Finite (- limit_max T)"

text \<open>\<^verbatim>\<open>int64_t\<close> and \<^verbatim>\<open>size_t\<close> (64 bits wide on the platforms the library targets) are 64-bit
  words; \<^verbatim>\<open>int64_t\<close> is read with \<open>sint\<close>, \<^verbatim>\<open>size_t\<close> with \<open>uint\<close>. A \<^verbatim>\<open>static_cast\<close> between them
  keeps the value modulo \<open>2 ^ 64\<close>.\<close>

type_synonym int64_t = "64 word"
type_synonym size_t = "64 word"

definition static_cast_size_t :: "int64_t \<Rightarrow> size_t" where
  "static_cast_size_t k = word_of_int (sint k)"

definition static_cast_int64_t :: "size_t \<Rightarrow> int64_t" where
  "static_cast_int64_t n = word_of_int (uint n)"

section \<open>The header and the point buffers\<close>

text \<open>Modelled from the spec: \<^verbatim>\<open>e57::NumericalNodeType\<close> is declared in a header that is not part
  of the sources at hand. A numeric quantity is stored as floating point or as a scaled
  integer; the code under study only ever tests for \<open>ScaledInteger\<close>.\<close>

datatype NumericalNodeType = Integer | ScaledInteger | Float | Double

text \<open>\<^verbatim>\<open>e57::PointStandardizedFieldsAvailable\<close>, with the members \<^verbatim>\<open>_fillMinMaxData\<close> names.
  Modelled from the spec: \<open>sphericalAzimuthField\<close> and \<open>sphericalElevationField\<close> are the
  enabling flags of the two angle quantities; \<^verbatim>\<open>_fillMinMaxData\<close> never reads them. Every
  other member of the struct lives in the record's extension part.\<close>

record PointStandardizedFieldsAvailable =
  cartesianXField :: bool
  sphericalRangeField :: bool
  sphericalAzimuthField :: bool
  sphericalElevationField :: bool
  intensityField :: bool
  timeStampField :: bool
  pointRangeMinimum :: fp
  pointRangeMaximum :: fp
  pointRangeNodeType :: NumericalNodeType
  angleMinimum :: fp
  angleMaximum :: fp
  angleNodeType :: NumericalNodeType
  timeMinimum :: fp
  timeMaximum :: fp
  timeNodeType :: NumericalNodeType

record IntensityLimits =
  intensityMinimum :: fp
  intensityMaximum :: fp

text \<open>Modelled from the spec: \<^verbatim>\<open>operator==\<close> of \<^verbatim>\<open>e57::IntensityLimits\<close> is declared outside the
  sources at hand; two limits are equal when both members compare equal. The default-valued
  struct \<^verbatim>\<open>IntensityLimits{}\<close> is a parameter of the model (\<open>lim0\<close> below).\<close>

definition IntensityLimits_eq :: "IntensityLimits \<Rightarrow> IntensityLimits \<Rightarrow> bool" where
  "IntensityLimits_eq a b =
     (fp_eq (intensityMinimum a) (intensityMinimum b) \<and>
      fp_eq (intensityMaximum a) (intensityMaximum b))"

text \<open>\<^verbatim>\<open>e57::Data3D\<close>: the members the writer names; the others live in the extension part.\<close>

record 'p Data3D =
  pointFields :: "'p PointStandardizedFieldsAvailable_scheme"
  intensityLimits :: IntensityLimits
  pointCount :: int64_t

text \<open>\<^verbatim>\<open>e57::Data3DPointsData_t<COORDTYPE>\<close>: each member is a raw pointer to a caller-owned
  array. \<open>None\<close> is the null pointer; \<open>Some xs\<close> points to an array holding \<open>xs\<close>. Reading a
  null pointer or past the end of the array is undefined behaviour, an error of the model.\<close>

type_synonym buffer = "fp list option"

record Data3DPointsData_t =
  cartesianX :: buffer
  cartesianY :: buffer
  cartesianZ :: buffer
  sphericalRange :: buffer
  sphericalAzimuth :: buffer
  sphericalElevation :: buffer
  intensity :: buffer
  timeStamp :: buffer

datatype error = UndefinedBehavior | E57Exception

definition deref :: "buffer \<Rightarrow> int \<Rightarrow> error + fp" where
  "deref p i =
     (case p of
        None \<Rightarrow> Inl UndefinedBehavior
      | Some xs \<Rightarrow>
          if 0 \<le> i \<and> i < int (length xs) then Inr (xs ! nat i) else Inl UndefinedBehavior)"

definition bindE :: "error + 'a \<Rightarrow> ('a \<Rightarrow> error + 'b) \<Rightarrow> error + 'b" where
  "bindE m f = (case m of Inl e \<Rightarrow> Inl e | Inr a \<Rightarrow> f a)"

section \<open>Filling in missing minimum and maximum data\<close>

text \<open>The four \<^verbatim>\<open>const bool\<close> conditions of \<^verbatim>\<open>_fillMinMaxData\<close>.\<close>

definition writePointRange :: "COORDTYPE \<Rightarrow> 'p PointStandardizedFieldsAvailable_scheme \<Rightarrow> bool" where
  "writePointRange T pf =
     (pointRangeNodeType pf = ScaledInteger \<and>
      fp_eq (pointRangeMinimum pf) (numeric_limits_lowest T) \<and>
      fp_eq (pointRangeMaximum pf) (numeric_limits_max T))"

definition writeAngle :: "COORDTYPE \<Rightarrow> 'p PointStandardizedFieldsAvailable_scheme \<Rightarrow> bool" where
  "writeAngle T pf =
     (angleNodeType pf = ScaledInteger \<and>
      fp_eq (angleMinimum pf) (numeric_limits_lowest T) \<and>
      fp_eq (angleMaximum pf) (numeric_limits_max T))"

definition writeIntensity :: "IntensityLimits \<Rightarrow> ('p, 'd) Data3D_scheme \<Rightarrow> bool" where
  "writeIntensity lim0 h =
     (intensityField (pointFields h) \<and> IntensityLimits_eq (intensityLimits h) lim0)"

definition writeTimeStamp :: "COORDTYPE \<Rightarrow> 'p PointStandardizedFieldsAvailable_scheme \<Rightarrow> bool" where
  "writeTimeStamp T pf =
     (timeStampField pf \<and> timeNodeType pf = ScaledInteger \<and>
      fp_eq (timeMinimum pf) (numeric_limits_lowest T) \<and>
      fp_eq (timeMaximum pf) (numeric_limits_max T))"

text \<open>The eight running accumulators, local variables of \<^verbatim>\<open>_fillMinMaxData\<close> (the prefix
  keeps them apart from the header members of the same names).\<close>

record locals =
  loc_pointRangeMinimum :: fp
  loc_pointRangeMaximum :: fp
  loc_angleMinimum :: fp
  loc_angleMaximum :: fp
  loc_intensityMinimum :: fp
  loc_intensityMaximum :: fp
  loc_timeMinimum :: fp
  loc_timeMaximum :: fp

text \<open>The point-range and angle accumulators are of type \<^verbatim>\<open>COORDTYPE\<close>; the intensity and time
  accumulators are \<^verbatim>\<open>double\<close> whatever the instantiation.\<close>

definition init_locals :: "COORDTYPE \<Rightarrow> locals" where
  "init_locals T =
     \<lparr> loc_pointRangeMinimum = numeric_limits_max T,
       loc_pointRangeMaximum = numeric_limits_lowest T,
       loc_angleMinimum = numeric_limits_max T,
       loc_angleMaximum = numeric_limits_lowest T,
       loc_intensityMinimum = numeric_limits_max COORD_double,
       loc_intensityMaximum = numeric_limits_lowest COORD_double,
       loc_timeMinimum = numeric_limits_max COORD_double,
       loc_timeMaximum = numeric_limits_lowest COORD_double \<rparr>"

text \<open>The five conditional blocks of the loop body, in the order of the source.\<close>

definition body_cartesian ::
  "bool \<Rightarrow> 'p PointStandardizedFieldsAvailable_scheme \<Rightarrow> Data3DPointsData_t \<Rightarrow> int \<Rightarrow>
   locals \<Rightarrow> error + locals" where
  "body_cartesian wPointRange pf inBuffers i l =
     (if wPointRange \<and> cartesianXField pf then
        bindE (deref (cartesianX inBuffers) i) (\<lambda>x.
        bindE (deref (cartesianY inBuffers) i) (\<lambda>y.
        bindE (deref (cartesianZ inBuffers) i) (\<lambda>z.
          Inr (l\<lparr> loc_pointRangeMinimum :=
                     std_min z (std_min y (std_min x (loc_pointRangeMinimum l))),
                   loc_pointRangeMaximum :=
                     std_max z (std_max y (std_max x (loc_pointRangeMaximum l))) \<rparr>))))
      else Inr l)"

definition body_sphericalRange ::
  "bool \<Rightarrow> 'p PointStandardizedFieldsAvailable_scheme \<Rightarrow> Data3DPointsData_t \<Rightarrow> int \<Rightarrow>
   locals \<Rightarrow> error + locals" where
  "body_sphericalRange wPointRange pf inBuffers i l =
     (if wPointRange \<and> sphericalRangeField pf then
        bindE (deref (sphericalRange inBuffers) i) (\<lambda>r.
          Inr (l\<lparr> loc_pointRangeMinimum := std_min r (loc_pointRangeMinimum l),
                   loc_pointRangeMaximum := std_max r (loc_pointRangeMaximum l) \<rparr>))
      else Inr l)"

definition body_angle :: "bool \<Rightarrow> Data3DPointsData_t \<Rightarrow> int \<Rightarrow> locals \<Rightarrow> error + locals" where
  "body_angle wAngle inBuffers i l =
     (if wAngle then
        bindE (deref (sphericalAzimuth inBuffers) i) (\<lambda>az.
        bindE (deref (sphericalElevation inBuffers) i) (\<lambda>el.
          Inr (l\<lparr> loc_angleMinimum := std_min el (std_min az (loc_angleMinimum l)),
                   loc_angleMaximum := std_max el (std_max az (loc_angleMaximum l)) \<rparr>)))
      else Inr l)"

definition body_intensity :: "bool \<Rightarrow> Data3DPointsData_t \<Rightarrow> int \<Rightarrow> locals \<Rightarrow> error + locals" where
  "body_intensity wIntensity inBuffers i l =
     (if wIntensity then
        bindE (deref (intensity inBuffers) i) (\<lambda>v.
          Inr (l\<lparr> loc_intensityMinimum := std_min v (loc_intensityMinimum l),
                   loc_intensityMaximum := std_max v (loc_intensityMaximum l) \<rparr>))
      else Inr l)"

definition body_timeStamp :: "bool \<Rightarrow> Data3DPointsData_t \<Rightarrow> int \<Rightarrow> locals \<Rightarrow> error + locals" where
  "body_timeStamp wTimeStamp inBuffers i l =
     (if wTimeStamp then
        bindE (deref (timeStamp inBuffers) i) (\<lambda>t.
          Inr (l\<lparr> loc_timeMinimum := std_min t (loc_timeMinimum l),
                   loc_timeMaximum := std_max t (loc_timeMaximum l) \<rparr>))
      else Inr l)"

definition loop_body ::
  "bool \<Rightarrow> bool \<Rightarrow> bool \<Rightarrow> bool \<Rightarrow> 'p PointStandardizedFieldsAvailable_scheme \<Rightarrow>
   Data3DPointsData_t \<Rightarrow> int \<Rightarrow> locals \<Rightarrow> error + locals" where
  "loop_body wPointRange wAngle wIntensity wTimeStamp pf inBuffers i l =
     bindE (body_cartesian wPointRange pf inBuffers i l) (\<lambda>l1.
     bindE (body_sphericalRange wPointRange pf inBuffers i l1) (\<lambda>l2.
     bindE (body_angle wAngle inBuffers i l2) (\<lambda>l3.
     bindE (body_intensity wIntensity inBuffers i l3) (\<lambda>l4.
       body_timeStamp wTimeStamp inBuffers i l4))))"

text \<open>\<^verbatim>\<open>for ( int64_t i = 0; i < pointCount; ++i )\<close>: the counter stays below \<open>pointCount\<close>, so it
  never overflows and is an integer here.\<close>

function for_loop ::
  "(int \<Rightarrow> locals \<Rightarrow> error + locals) \<Rightarrow> int \<Rightarrow> int \<Rightarrow> locals \<Rightarrow> error + locals" where
  "for_loop body i n l =
     (if i < n then
        (case body i l of Inl e \<Rightarrow> Inl e | Inr l' \<Rightarrow> for_loop body (i + 1) n l')
      else Inr l)"
  by pat_completeness auto
termination
  by (relation "measure (\<lambda>(body, i, n, l). nat (n - i))") auto

declare for_loop.simps [simp del]

text \<open>The write-back after the loop.\<close>

definition write_back ::
  "bool \<Rightarrow> bool \<Rightarrow> bool \<Rightarrow> bool \<Rightarrow> locals \<Rightarrow> ('p, 'd) Data3D_scheme \<Rightarrow> ('p, 'd) Data3D_scheme" where
  "write_back wPointRange wAngle wIntensity wTimeStamp l h =
     (let h1 = (if wPointRange then
                  h\<lparr> pointFields := (pointFields h)
                       \<lparr> pointRangeMinimum := loc_pointRangeMinimum l,
                         pointRangeMaximum := loc_pointRangeMaximum l \<rparr> \<rparr>
                else h);
          h2 = (if wAngle then
                  h1\<lparr> pointFields := (pointFields h1)
                       \<lparr> angleMinimum := loc_angleMinimum l,
                         angleMaximum := loc_angleMaximum l \<rparr> \<rparr>
                else h1);
          h3 = (if wIntensity then
                  h2\<lparr> intensityLimits := (intensityLimits h2)
                       \<lparr> intensityMinimum := loc_intensityMinimum l,
                         intensityMaximum := loc_intensityMaximum l \<rparr> \<rparr>
                else h2)
      in (if wTimeStamp then
            h3\<lparr> pointFields := (pointFields h3)
                 \<lparr> timeMinimum := loc_timeMinimum l,
                   timeMaximum := loc_timeMaximum l \<rparr> \<rparr>
          else h3))"

text \<open>\<^verbatim>\<open>_fillMinMaxData<COORDTYPE>( ioData3DHeader, inBuffers )\<close>. The header is passed by
  reference and updated in place: the model returns the updated header. The buffers are
  passed by reference to \<^verbatim>\<open>const\<close> and only ever read.\<close>

definition fillMinMaxData ::
  "COORDTYPE \<Rightarrow> IntensityLimits \<Rightarrow> ('p, 'd) Data3D_scheme \<Rightarrow> Data3DPointsData_t \<Rightarrow>
   error + ('p, 'd) Data3D_scheme" where
  "fillMinMaxData T lim0 ioData3DHeader inBuffers =
     (let pf = pointFields ioData3DHeader;
          wPointRange = writePointRange T pf;
          wAngle = writeAngle T pf;
          wIntensity = writeIntensity lim0 ioData3DHeader;
          wTimeStamp = writeTimeStamp T pf
      in bindE (for_loop (loop_body wPointRange wAngle wIntensity wTimeStamp pf inBuffers)
                  0 (sint (pointCount ioData3DHeader)) (init_locals T))
           (\<lambda>l. Inr (write_back wPointRange wAngle wIntensity wTimeStamp l ioData3DHeader)))"

section \<open>The writer facade\<close>

text \<open>The implementation object \<^verbatim>\<open>impl_\<close> (class \<^verbatim>\<open>WriterImpl\<close>) and the
  \<^verbatim>\<open>CompressedVectorWriter\<close> it hands out are declared outside the sources at hand: their
  operations are parameters of the model. Each takes the state \<open>'s\<close> of the implementation and
  returns the new state, or throws. A header passed by reference comes back with the result.
  The image header, image type and projection are opaque to the facade (\<open>'i\<close>, \<open>'t\<close>, \<open>'j\<close>);
  \<open>'w\<close> is the streaming writer handle.\<close>

type_synonym byte_buffer = "8 word list option"

record ('s, 'p, 'd, 'w, 'i, 't, 'j) WriterImpl =
  impl_NewData3D ::
    "('p, 'd) Data3D_scheme \<Rightarrow> 's \<Rightarrow> error + (int64_t \<times> ('p, 'd) Data3D_scheme \<times> 's)"
  impl_SetUpData3DPointsData ::
    "int64_t \<Rightarrow> size_t \<Rightarrow> Data3DPointsData_t \<Rightarrow> 's \<Rightarrow> error + ('w \<times> 's)"
  writer_write :: "'w \<Rightarrow> size_t \<Rightarrow> 's \<Rightarrow> error + 's"
  writer_close :: "'w \<Rightarrow> 's \<Rightarrow> error + 's"
  impl_NewImage2D :: "'i \<Rightarrow> 's \<Rightarrow> error + (int64_t \<times> 'i \<times> 's)"
  impl_WriteImage2DData ::
    "int64_t \<Rightarrow> 't \<Rightarrow> 'j \<Rightarrow> byte_buffer \<Rightarrow> int64_t \<Rightarrow> size_t \<Rightarrow> 's \<Rightarrow> error + (size_t \<times> 's)"

text \<open>\<^verbatim>\<open>Writer::WriteImage2DData( image2DHeader, imageType, imageProjection, startPos, pBuffer,
  byteCount )\<close>.\<close>

definition WriteImage2DData_header ::
  "('s, 'p, 'd, 'w, 'i, 't, 'j) WriterImpl \<Rightarrow> 'i \<Rightarrow> 't \<Rightarrow> 'j \<Rightarrow> int64_t \<Rightarrow> byte_buffer \<Rightarrow>
   int64_t \<Rightarrow> 's \<Rightarrow> error + (int64_t \<times> 'i \<times> 's)" where
  "WriteImage2DData_header impl image2DHeader imageType imageProjection startPos pBuffer
     byteCount s =
     (let buffer = pBuffer;
          sizeInBytes = static_cast_size_t byteCount
      in bindE (impl_NewImage2D impl image2DHeader s) (\<lambda>(imageIndex, image2DHeader', s1).
         bindE (impl_WriteImage2DData impl imageIndex imageType imageProjection buffer startPos
                  sizeInBytes s1) (\<lambda>(written, s2).
           Inr (static_cast_int64_t written, image2DHeader', s2))))"

text \<open>\<^verbatim>\<open>Writer::WriteImage2DData( imageIndex, imageType, imageProjection, pBuffer, start,
  count )\<close>.\<close>

definition WriteImage2DData_index ::
  "('s, 'p, 'd, 'w, 'i, 't, 'j) WriterImpl \<Rightarrow> int64_t \<Rightarrow> 't \<Rightarrow> 'j \<Rightarrow> byte_buffer \<Rightarrow>
   int64_t \<Rightarrow> int64_t \<Rightarrow> 's \<Rightarrow> error + (int64_t \<times> 's)" where
  "WriteImage2DData_index impl imageIndex imageType imageProjection pBuffer start count s =
     (let buffer = pBuffer;
          size = static_cast_size_t count
      in bindE (impl_WriteImage2DData impl imageIndex imageType imageProjection buffer start
                  size s) (\<lambda>(written, s1).
           Inr (static_cast_int64_t written, s1)))"

text \<open>\<^verbatim>\<open>Writer::WriteData3DData( data3DHeader, buffers )\<close>, for both buffer types. The point count
  handed to the implementation and to the streaming writer is read from the header after
  \<^verbatim>\<open>NewData3D\<close> has seen it, and converted to \<^verbatim>\<open>size_t\<close>.\<close>

definition WriteData3DData ::
  "('s, 'p, 'd, 'w, 'i, 't, 'j) WriterImpl \<Rightarrow> COORDTYPE \<Rightarrow> IntensityLimits \<Rightarrow>
   ('p, 'd) Data3D_scheme \<Rightarrow> Data3DPointsData_t \<Rightarrow> 's \<Rightarrow>
   error + (int64_t \<times> ('p, 'd) Data3D_scheme \<times> 's)" where
  "WriteData3DData impl T lim0 data3DHeader buffers s =
     bindE (fillMinMaxData T lim0 data3DHeader buffers) (\<lambda>h1.
     bindE (impl_NewData3D impl h1 s) (\<lambda>(scanIndex, h2, s1).
     bindE (impl_SetUpData3DPointsData impl scanIndex (static_cast_size_t (pointCount h2))
              buffers s1) (\<lambda>(dataWriter, s2).
     bindE (writer_write impl dataWriter (static_cast_size_t (pointCount h2)) s2) (\<lambda>s3.
     bindE (writer_close impl dataWriter s3) (\<lambda>s4.
       Inr (scanIndex, h2, s4))))))"

text \<open>To observe what the facade asks of the implementation, and in which order, an
  implementation is wrapped so that every call is appended to a log kept beside its state.\<close>

datatype ('h, 'w, 'i, 't, 'j) call =
    Call_NewData3D 'h
  | Call_SetUpData3DPointsData int64_t size_t Data3DPointsData_t
  | Call_write 'w size_t
  | Call_close 'w
  | Call_NewImage2D 'i
  | Call_WriteImage2DData int64_t 't 'j byte_buffer int64_t size_t

definition logged ::
  "('s, 'p, 'd, 'w, 'i, 't, 'j) WriterImpl \<Rightarrow>
   ('s \<times> (('p, 'd) Data3D_scheme, 'w, 'i, 't, 'j) call list, 'p, 'd, 'w, 'i, 't, 'j) WriterImpl"
  where
  "logged impl =
     \<lparr> impl_NewData3D = (\<lambda>h (s, cs).
         bindE (impl_NewData3D impl h s) (\<lambda>(k, h', s').
           Inr (k, h', (s', cs @ [Call_NewData3D h])))),
       impl_SetUpData3DPointsData = (\<lambda>k n b (s, cs).
         bindE (impl_SetUpData3DPointsData impl k n b s) (\<lambda>(w, s').
           Inr (w, (s', cs @ [Call_SetUpData3DPointsData k n b])))),
       writer_write = (\<lambda>w n (s, cs).
         bindE (writer_write impl w n s) (\<lambda>s'. Inr (s', cs @ [Call_write w n]))),
       writer_close = (\<lambda>w (s, cs).
         bindE (writer_close impl w s) (\<lambda>s'. Inr (s', cs @ [Call_close w]))),
       impl_NewImage2D = (\<lambda>h (s, cs).
         bindE (impl_NewImage2D impl h s) (\<lambda>(k, h', s').
           Inr (k, h', (s', cs @ [Call_NewImage2D h])))),
       impl_WriteImage2DData = (\<lambda>k t j p start n (s, cs).
         bindE (impl_WriteImage2DData impl k t j p start n s) (\<lambda>(written, s').
           Inr (written, (s', cs @ [Call_WriteImage2DData k t j p start n])))) \<rparr>"

section \<open>Reading the loop as a fold\<close>

text \<open>Auxiliary notions for the proofs. \<open>valid_at p i\<close> says that reading \<open>p[i]\<close> is defined and
  \<open>val_at p i\<close> is the value read (\<open>NaN\<close> stands in for a read that is not defined, which a
  run that returns never makes).\<close>

definition valid_at :: "buffer \<Rightarrow> int \<Rightarrow> bool" where
  "valid_at p i = (case deref p i of Inl e \<Rightarrow> False | Inr v \<Rightarrow> True)"

definition val_at :: "buffer \<Rightarrow> int \<Rightarrow> fp" where
  "val_at p i = (case deref p i of Inl e \<Rightarrow> NaN | Inr v \<Rightarrow> v)"

text \<open>All reads of iteration \<open>i\<close> are defined.\<close>

definition step_ok ::
  "bool \<Rightarrow> bool \<Rightarrow> bool \<Rightarrow> bool \<Rightarrow> 'p PointStandardizedFieldsAvailable_scheme \<Rightarrow>
   Data3DPointsData_t \<Rightarrow> int \<Rightarrow> bool" where
  "step_ok wP wA wI wT pf b i =
     ((wP \<and> cartesianXField pf \<longrightarrow>
         valid_at (cartesianX b) i \<and> valid_at (cartesianY b) i \<and> valid_at (cartesianZ b) i) \<and>
      (wP \<and> sphericalRangeField pf \<longrightarrow> valid_at (sphericalRange b) i) \<and>
      (wA \<longrightarrow> valid_at (sphericalAzimuth b) i \<and> valid_at (sphericalElevation b) i) \<and>
      (wI \<longrightarrow> valid_at (intensity b) i) \<and>
      (wT \<longrightarrow> valid_at (timeStamp b) i))"

text \<open>What one iteration does to one accumulator of each family; \<open>f\<close> is \<open>std_min\<close> or
  \<open>std_max\<close>.\<close>

definition step_pr ::
  "(fp \<Rightarrow> fp \<Rightarrow> fp) \<Rightarrow> bool \<Rightarrow> 'p PointStandardizedFieldsAvailable_scheme \<Rightarrow>
   Data3DPointsData_t \<Rightarrow> fp \<Rightarrow> int \<Rightarrow> fp" where
  "step_pr f wP pf b a i =
     (let a1 = (if wP \<and> cartesianXField pf
                then f (val_at (cartesianZ b) i)
                       (f (val_at (cartesianY b) i) (f (val_at (cartesianX b) i) a))
                else a)
      in if wP \<and> sphericalRangeField pf then f (val_at (sphericalRange b) i) a1 else a1)"

definition step_an :: "(fp \<Rightarrow> fp \<Rightarrow> fp) \<Rightarrow> bool \<Rightarrow> Data3DPointsData_t \<Rightarrow> fp \<Rightarrow> int \<Rightarrow> fp" where
  "step_an f wA b a i =
     (if wA then f (val_at (sphericalElevation b) i) (f (val_at (sphericalAzimuth b) i) a)
      else a)"

definition step_one :: "(fp \<Rightarrow> fp \<Rightarrow> fp) \<Rightarrow> bool \<Rightarrow> buffer \<Rightarrow> fp \<Rightarrow> int \<Rightarrow> fp" where
  "step_one f w p a i = (if w then f (val_at p i) a else a)"

definition pure_step ::
  "bool \<Rightarrow> bool \<Rightarrow> bool \<Rightarrow> bool \<Rightarrow> 'p PointStandardizedFieldsAvailable_scheme \<Rightarrow>
   Data3DPointsData_t \<Rightarrow> locals \<Rightarrow> int \<Rightarrow> locals" where
  "pure_step wP wA wI wT pf b l i =
     \<lparr> loc_pointRangeMinimum = step_pr std_min wP pf b (loc_pointRangeMinimum l) i,
       loc_pointRangeMaximum = step_pr std_max wP pf b (loc_pointRangeMaximum l) i,
       loc_angleMinimum = step_an std_min wA b (loc_angleMinimum l) i,
       loc_angleMaximum = step_an std_max wA b (loc_angleMaximum l) i,
       loc_intensityMinimum = step_one std_min wI (intensity b) (loc_intensityMinimum l) i,
       loc_intensityMaximum = step_one std_max wI (intensity b) (loc_intensityMaximum l) i,
       loc_timeMinimum = step_one std_min wT (timeStamp b) (loc_timeMinimum l) i,
       loc_timeMaximum = step_one std_max wT (timeStamp b) (loc_timeMaximum l) i \<rparr>"

text \<open>The samples that feed each family over the indices \<open>0 .. n - 1\<close>, in the order in which
  the loop meets them, and the accumulation of a list of samples into one running value.\<close>

definition pointRange_samples ::
  "'p PointStandardizedFieldsAvailable_scheme \<Rightarrow> Data3DPointsData_t \<Rightarrow> int \<Rightarrow> fp list" where
  "pointRange_samples pf b n =
     concat (map (\<lambda>i.
       (if cartesianXField pf
        then [val_at (cartesianX b) i, val_at (cartesianY b) i, val_at (cartesianZ b) i]
        else []) @
       (if sphericalRangeField pf then [val_at (sphericalRange b) i] else [])) [0..n - 1])"

definition angle_samples :: "Data3DPointsData_t \<Rightarrow> int \<Rightarrow> fp list" where
  "angle_samples b n =
     concat (map (\<lambda>i. [val_at (sphericalAzimuth b) i, val_at (sphericalElevation b) i])
       [0..n - 1])"

definition buffer_samples :: "buffer \<Rightarrow> int \<Rightarrow> fp list" where
  "buffer_samples p n = map (val_at p) [0..n - 1]"

definition accumulate :: "(fp \<Rightarrow> fp \<Rightarrow> fp) \<Rightarrow> fp \<Rightarrow> fp list \<Rightarrow> fp" where
  "accumulate f a vs = foldl (\<lambda>acc v. f v acc) a vs"

text \<open>A finite value of the given floating-point type.\<close>

definition is_finite :: "COORDTYPE \<Rightarrow> fp \<Rightarrow> bool" where
  "is_finite T v =
     (case v of Finite r \<Rightarrow> - limit_max T \<le> r \<and> r \<le> limit_max T | _ \<Rightarrow> False)"

definition bounds_all :: "fp \<Rightarrow> fp \<Rightarrow> fp list \<Rightarrow> bool" where
  "bounds_all lo hi vs = list_all (\<lambda>v. fp_le lo v \<and> fp_le v hi) vs"

definition attained :: "fp \<Rightarrow> fp \<Rightarrow> fp list \<Rightarrow> bool" where
  "attained lo hi vs = (lo \<in> set vs \<and> hi \<in> set vs)"

text \<open>No sample of the list is not-a-number.\<close>

definition nan_free :: "fp list \<Rightarrow> bool" where
  "nan_free vs = list_all (\<lambda>v. v \<noteq> NaN) vs"

text \<open>Every sample the pass scans is a finite value of its buffer's element type: the
  point-range and angle buffers hold \<^verbatim>\<open>COORDTYPE\<close> values, the intensity and time-stamp buffers
  hold \<^verbatim>\<open>double\<close> values.\<close>

definition scanned_finite ::
  "COORDTYPE \<Rightarrow> IntensityLimits \<Rightarrow> ('p, 'd) Data3D_scheme \<Rightarrow> Data3DPointsData_t \<Rightarrow> bool" where
  "scanned_finite T lim0 h b =
     ((writePointRange T (pointFields h) \<longrightarrow>
         list_all (is_finite T) (pointRange_samples (pointFields h) b (sint (pointCount h)))) \<and>
      (writeAngle T (pointFields h) \<longrightarrow>
         list_all (is_finite T) (angle_samples b (sint (pointCount h)))) \<and>
      (writeIntensity lim0 h \<longrightarrow>
         list_all (is_finite COORD_double)
           (buffer_samples (intensity b) (sint (pointCount h)))) \<and>
      (writeTimeStamp T (pointFields h) \<longrightarrow>
         list_all (is_finite COORD_double)
           (buffer_samples (timeStamp b) (sint (pointCount h)))))"

section \<open>Concrete scans\<close>

text \<open>A two-point scan in single precision with every quantity enabled, stored as scaled
  integer and with all bounds still unset.\<close>

definition example_limits :: IntensityLimits where
  "example_limits = \<lparr> intensityMinimum = Finite 0, intensityMaximum = Finite 0 \<rparr>"

definition example_fields :: PointStandardizedFieldsAvailable where
  "example_fields =
     \<lparr> cartesianXField = True, sphericalRangeField = True, sphericalAzimuthField = True,
       sphericalElevationField = True, intensityField = True, timeStampField = True,
       pointRangeMinimum = Finite (- FLT_MAX), pointRangeMaximum = Finite FLT_MAX,
       pointRangeNodeType = ScaledInteger,
       angleMinimum = Finite (- FLT_MAX), angleMaximum = Finite FLT_MAX,
       angleNodeType = ScaledInteger,
       timeMinimum = Finite (- FLT_MAX), timeMaximum = Finite FLT_MAX,
       timeNodeType = ScaledInteger \<rparr>"

definition example_header :: "unit Data3D" where
  "example_header =
     \<lparr> pointFields = example_fields, intensityLimits = example_limits, pointCount = 2 \<rparr>"

definition example_buffers :: Data3DPointsData_t where
  "example_buffers =
     \<lparr> cartesianX = Some [Finite 1, Finite 2],
       cartesianY = Some [Finite (- 3), Finite 4],
       cartesianZ = Some [Finite 5, Finite 6],
       sphericalRange = Some [Finite 7, Finite 8],
       sphericalAzimuth = Some [Finite (1 / 2), Finite (- 1)],
       sphericalElevation = Some [Finite (1 / 4), Finite 1],
       intensity = Some [Finite 10, Finite 20],
       timeStamp = Some [Finite 100, Finite 200] \<rparr>"

definition example_result :: "unit Data3D" where
  "example_result =
     \<lparr> pointFields = example_fields
         \<lparr> pointRangeMinimum := Finite (- 3), pointRangeMaximum := Finite 8,
           angleMinimum := Finite (- 1), angleMaximum := Finite 1,
           timeMinimum := Finite 100, timeMaximum := Finite 200 \<rparr>,
       intensityLimits = \<lparr> intensityMinimum = Finite 10, intensityMaximum = Finite 20 \<rparr>,
       pointCount = 2 \<rparr>"

text \<open>The same header declaring no points at all, and what the pass makes of it.\<close>

definition empty_header :: "unit Data3D" where
  "empty_header = example_header \<lparr> pointCount := 0 \<rparr>"

definition empty_result :: "unit Data3D" where
  "empty_result =
     \<lparr> pointFields = example_fields
         \<lparr> pointRangeMinimum := Finite FLT_MAX, pointRangeMaximum := Finite (- FLT_MAX),
           angleMinimum := Finite FLT_MAX, angleMaximum := Finite (- FLT_MAX),
           timeMinimum := Finite DBL_MAX, timeMaximum := Finite (- DBL_MAX) \<rparr>,
       intensityLimits =
         \<lparr> intensityMinimum = Finite DBL_MAX, intensityMaximum = Finite (- DBL_MAX) \<rparr>,
       pointCount = 0 \<rparr>"

text \<open>One point whose time stamp is not a number; and the two-point scan with an infinite
  range at each end and an intensity that is not a number.\<close>

definition nan_header :: "unit Data3D" where
  "nan_header = example_header \<lparr> pointCount := 1 \<rparr>"

definition nan_buffers :: Data3DPointsData_t where
  "nan_buffers = example_buffers \<lparr> timeStamp := Some [NaN] \<rparr>"

definition nan_result :: "unit Data3D" where
  "nan_result =
     \<lparr> pointFields = example_fields
         \<lparr> pointRangeMinimum := Finite (- 3), pointRangeMaximum := Finite 7,
           angleMinimum := Finite (1 / 4), angleMaximum := Finite (1 / 2),
           timeMinimum := NaN, timeMaximum := NaN \<rparr>,
       intensityLimits = \<lparr> intensityMinimum = Finite 10, intensityMaximum = Finite 10 \<rparr>,
       pointCount = 1 \<rparr>"

definition inf_buffers :: Data3DPointsData_t where
  "inf_buffers =
     example_buffers \<lparr> sphericalRange := Some [NegInf, PosInf],
                       intensity := Some [NaN, Finite 20] \<rparr>"

definition inf_result :: "unit Data3D" where
  "inf_result =
     \<lparr> pointFields = example_fields
         \<lparr> pointRangeMinimum := NegInf, pointRangeMaximum := PosInf,
           angleMinimum := Finite (- 1), angleMaximum := Finite 1,
           timeMinimum := Finite 100, timeMaximum := Finite 200 \<rparr>,
       intensityLimits = \<lparr> intensityMinimum = Finite 20, intensityMaximum = Finite 20 \<rparr>,
       pointCount = 2 \<rparr>"

text \<open>The two-point scan again, with the point-range bounds supplied by the caller.\<close>

definition preset_header :: "unit Data3D" where
  "preset_header =
     example_header \<lparr> pointFields :=
       example_fields \<lparr> pointRangeMinimum := Finite 0, pointRangeMaximum := Finite 100 \<rparr> \<rparr>"

definition preset_result :: "unit Data3D" where
  "preset_result =
     \<lparr> pointFields = example_fields
         \<lparr> pointRangeMinimum := Finite 0, pointRangeMaximum := Finite 100,
           angleMinimum := Finite (- 1), angleMaximum := Finite 1,
           timeMinimum := Finite 100, timeMaximum := Finite 200 \<rparr>,
       intensityLimits = \<lparr> intensityMinimum = Finite 10, intensityMaximum = Finite 20 \<rparr>,
       pointCount = 2 \<rparr>"

text \<open>A Cartesian-only scan in double precision: no spherical field is enabled and no spherical
  buffer is supplied, while the angle quantity is configured as scaled integer with its bounds
  unset. The second buffer set supplies the two angle arrays all the same.\<close>

definition cartesian_fields :: PointStandardizedFieldsAvailable where
  "cartesian_fields =
     \<lparr> cartesianXField = True, sphericalRangeField = False, sphericalAzimuthField = False,
       sphericalElevationField = False, intensityField = False, timeStampField = False,
       pointRangeMinimum = Finite (- DBL_MAX), pointRangeMaximum = Finite DBL_MAX,
       pointRangeNodeType = ScaledInteger,
       angleMinimum = Finite (- DBL_MAX), angleMaximum = Finite DBL_MAX,
       angleNodeType = ScaledInteger,
       timeMinimum = Finite (- DBL_MAX), timeMaximum = Finite DBL_MAX,
       timeNodeType = Float \<rparr>"

definition cartesian_header :: "unit Data3D" where
  "cartesian_header =
     \<lparr> pointFields = cartesian_fields, intensityLimits = example_limits, pointCount = 1 \<rparr>"

definition cartesian_buffers :: Data3DPointsData_t where
  "cartesian_buffers =
     \<lparr> cartesianX = Some [Finite 1], cartesianY = Some [Finite 2], cartesianZ = Some [Finite 3],
       sphericalRange = None, sphericalAzimuth = None, sphericalElevation = None,
       intensity = None, timeStamp = None \<rparr>"

definition stray_angle_buffers :: Data3DPointsData_t where
  "stray_angle_buffers =
     cartesian_buffers \<lparr> sphericalAzimuth := Some [Finite 5], sphericalElevation := Some [Finite 7] \<rparr>"

definition stray_angle_result :: "unit Data3D" where
  "stray_angle_result =
     \<lparr> pointFields = cartesian_fields
         \<lparr> pointRangeMinimum := Finite 1, pointRangeMaximum := Finite 3,
           angleMinimum := Finite 5, angleMaximum := Finite 7 \<rparr>,
       intensityLimits = example_limits, pointCount = 1 \<rparr>"

text \<open>An implementation that numbers its records from its state, hands out the writer handle
  \<open>7\<close> and accepts every byte it is offered.\<close>

definition example_impl :: "(nat, unit, unit, nat, nat, nat, nat) WriterImpl" where
  "example_impl =
     \<lparr> impl_NewData3D = (\<lambda>h s. Inr (of_nat s, h, Suc s)),
       impl_SetUpData3DPointsData = (\<lambda>k n b s. Inr (7, s)),
       writer_write = (\<lambda>w n s. Inr s),
       writer_close = (\<lambda>w s. Inr s),
       impl_NewImage2D = (\<lambda>h s. Inr (of_nat s, h, Suc s)),
       impl_WriteImage2DData = (\<lambda>k t j p start n s. Inr (n, s)) \<rparr>"

section \<open>The loop\<close>

lemma deref_cases:
  "deref p i = (if valid_at p i then Inr (val_at p i) else Inl UndefinedBehavior)"
  by (auto simp: valid_at_def val_at_def deref_def split: option.splits)

lemma loop_body_eq:
  "loop_body wP wA wI wT pf b i l =
     (if step_ok wP wA wI wT pf b i then Inr (pure_step wP wA wI wT pf b l i)
      else Inl UndefinedBehavior)"
  by (simp add: loop_body_def body_cartesian_def body_sphericalRange_def body_angle_def
      body_intensity_def body_timeStamp_def deref_cases bindE_def step_ok_def pure_step_def
      step_pr_def step_an_def step_one_def)

lemma for_loop_eq:
  "for_loop (loop_body wP wA wI wT pf b) i n l =
     (if \<forall>j. i \<le> j \<and> j < n \<longrightarrow> step_ok wP wA wI wT pf b j
      then Inr (foldl (pure_step wP wA wI wT pf b) l [i..n - 1])
      else Inl UndefinedBehavior)"
proof (induction "loop_body wP wA wI wT pf b" i n l rule: for_loop.induct)
  case (1 i n l)
  show ?case
  proof (cases "i < n")
    case False
    then show ?thesis by (simp add: for_loop.simps [of _ i n l])
  next
    case True
    note lt = this
    show ?thesis
    proof (cases "step_ok wP wA wI wT pf b i")
      case False
      with lt show ?thesis
        by (auto simp: for_loop.simps [of _ i n l] loop_body_eq)
    next
      case True
      have split: "(\<forall>j. i \<le> j \<and> j < n \<longrightarrow> step_ok wP wA wI wT pf b j) =
                   (\<forall>j. i + 1 \<le> j \<and> j < n \<longrightarrow> step_ok wP wA wI wT pf b j)"
      proof -
        have "\<And>j. (i \<le> j) = (j = i \<or> i + 1 \<le> j)" by auto
        with True show ?thesis by auto
      qed
      have lst: "[i..n - 1] = i # [i + 1..n - 1]"
        using lt by (simp add: upto_rec1)
      have "for_loop (loop_body wP wA wI wT pf b) i n l =
            for_loop (loop_body wP wA wI wT pf b) (i + 1) n (pure_step wP wA wI wT pf b l i)"
        using lt True by (simp add: for_loop.simps [of _ i n l] loop_body_eq)
      also have "\<dots> =
          (if \<forall>j. i + 1 \<le> j \<and> j < n \<longrightarrow> step_ok wP wA wI wT pf b j
           then Inr (foldl (pure_step wP wA wI wT pf b) (pure_step wP wA wI wT pf b l i)
                       [i + 1..n - 1])
           else Inl UndefinedBehavior)"
        using "1" [OF lt, of "pure_step wP wA wI wT pf b l i"] True
        by (simp add: loop_body_eq)
      finally show ?thesis
        by (simp only: split lst foldl_Cons)
    qed
  qed
qed

lemma foldl_pure_step_proj:
  "loc_pointRangeMinimum (foldl (pure_step wP wA wI wT pf b) l js) =
     foldl (step_pr std_min wP pf b) (loc_pointRangeMinimum l) js \<and>
   loc_pointRangeMaximum (foldl (pure_step wP wA wI wT pf b) l js) =
     foldl (step_pr std_max wP pf b) (loc_pointRangeMaximum l) js \<and>
   loc_angleMinimum (foldl (pure_step wP wA wI wT pf b) l js) =
     foldl (step_an std_min wA b) (loc_angleMinimum l) js \<and>
   loc_angleMaximum (foldl (pure_step wP wA wI wT pf b) l js) =
     foldl (step_an std_max wA b) (loc_angleMaximum l) js \<and>
   loc_intensityMinimum (foldl (pure_step wP wA wI wT pf b) l js) =
     foldl (step_one std_min wI (intensity b)) (loc_intensityMinimum l) js \<and>
   loc_intensityMaximum (foldl (pure_step wP wA wI wT pf b) l js) =
     foldl (step_one std_max wI (intensity b)) (loc_intensityMaximum l) js \<and>
   loc_timeMinimum (foldl (pure_step wP wA wI wT pf b) l js) =
     foldl (step_one std_min wT (timeStamp b)) (loc_timeMinimum l) js \<and>
   loc_timeMaximum (foldl (pure_step wP wA wI wT pf b) l js) =
     foldl (step_one std_max wT (timeStamp b)) (loc_timeMaximum l) js"
proof (induction js arbitrary: l)
  case Nil
  show ?case by simp
next
  case (Cons j js)
  have "loc_pointRangeMinimum (pure_step wP wA wI wT pf b l j) =
          step_pr std_min wP pf b (loc_pointRangeMinimum l) j"
       "loc_pointRangeMaximum (pure_step wP wA wI wT pf b l j) =
          step_pr std_max wP pf b (loc_pointRangeMaximum l) j"
       "loc_angleMinimum (pure_step wP wA wI wT pf b l j) =
          step_an std_min wA b (loc_angleMinimum l) j"
       "loc_angleMaximum (pure_step wP wA wI wT pf b l j) =
          step_an std_max wA b (loc_angleMaximum l) j"
       "loc_intensityMinimum (pure_step wP wA wI wT pf b l j) =
          step_one std_min wI (intensity b) (loc_intensityMinimum l) j"
       "loc_intensityMaximum (pure_step wP wA wI wT pf b l j) =
          step_one std_max wI (intensity b) (loc_intensityMaximum l) j"
       "loc_timeMinimum (pure_step wP wA wI wT pf b l j) =
          step_one std_min wT (timeStamp b) (loc_timeMinimum l) j"
       "loc_timeMaximum (pure_step wP wA wI wT pf b l j) =
          step_one std_max wT (timeStamp b) (loc_timeMaximum l) j"
    by (simp_all add: pure_step_def)
  with Cons.IH [of "pure_step wP wA wI wT pf b l j"] show ?case
    by (simp only: foldl_Cons)
qed

lemma foldl_step_off:
  "foldl (step_pr f False pf b) a js = a"
  "foldl (step_an f False b) a js = a"
  "foldl (step_one f False p) a js = a"
  by (induction js) (simp_all add: step_pr_def step_an_def step_one_def)

lemma foldl_step_pr_on:
  "foldl (step_pr f True pf b) a [0..n - 1] = accumulate f a (pointRange_samples pf b n)"
proof -
  have "foldl (step_pr f True pf b) a js =
        foldl (\<lambda>acc v. f v acc) a (concat (map (\<lambda>i.
          (if cartesianXField pf
           then [val_at (cartesianX b) i, val_at (cartesianY b) i, val_at (cartesianZ b) i]
           else []) @
          (if sphericalRangeField pf then [val_at (sphericalRange b) i] else [])) js))" for js
    by (induction js arbitrary: a) (simp_all add: step_pr_def)
  then show ?thesis
    by (simp add: accumulate_def pointRange_samples_def)
qed

lemma foldl_step_an_on:
  "foldl (step_an f True b) a [0..n - 1] = accumulate f a (angle_samples b n)"
proof -
  have "foldl (step_an f True b) a js =
        foldl (\<lambda>acc v. f v acc) a
          (concat (map (\<lambda>i. [val_at (sphericalAzimuth b) i, val_at (sphericalElevation b) i]) js))"
    for js
    by (induction js arbitrary: a) (simp_all add: step_an_def)
  then show ?thesis
    by (simp add: accumulate_def angle_samples_def)
qed

lemma foldl_step_one_on:
  "foldl (step_one f True p) a [0..n - 1] = accumulate f a (buffer_samples p n)"
proof -
  have "foldl (step_one f True p) a js = foldl (\<lambda>acc v. f v acc) a (map (val_at p) js)" for js
    by (induction js arbitrary: a) (simp_all add: step_one_def)
  then show ?thesis
    by (simp add: accumulate_def buffer_samples_def)
qed

lemma fillMinMaxData_eq:
  "fillMinMaxData T lim0 h b =
     (if \<forall>j. 0 \<le> j \<and> j < sint (pointCount h) \<longrightarrow>
           step_ok (writePointRange T (pointFields h)) (writeAngle T (pointFields h))
             (writeIntensity lim0 h) (writeTimeStamp T (pointFields h)) (pointFields h) b j
      then Inr (write_back (writePointRange T (pointFields h)) (writeAngle T (pointFields h))
                  (writeIntensity lim0 h) (writeTimeStamp T (pointFields h))
                  (foldl (pure_step (writePointRange T (pointFields h)) (writeAngle T (pointFields h))
                     (writeIntensity lim0 h) (writeTimeStamp T (pointFields h)) (pointFields h) b)
                     (init_locals T) [0..sint (pointCount h) - 1]) h)
      else Inl UndefinedBehavior)"
  by (simp add: fillMinMaxData_def for_loop_eq bindE_def Let_def)

text \<open>What the write-back leaves alone, and what it stores.\<close>

lemma write_back_frame:
  "pointCount (write_back wP wA wI wT l h) = pointCount h"
  "Data3D.more (write_back wP wA wI wT l h) = Data3D.more h"
  "PointStandardizedFieldsAvailable.more (pointFields (write_back wP wA wI wT l h)) =
     PointStandardizedFieldsAvailable.more (pointFields h)"
  "cartesianXField (pointFields (write_back wP wA wI wT l h)) = cartesianXField (pointFields h)"
  "sphericalRangeField (pointFields (write_back wP wA wI wT l h)) =
     sphericalRangeField (pointFields h)"
  "sphericalAzimuthField (pointFields (write_back wP wA wI wT l h)) =
     sphericalAzimuthField (pointFields h)"
  "sphericalElevationField (pointFields (write_back wP wA wI wT l h)) =
     sphericalElevationField (pointFields h)"
  "intensityField (pointFields (write_back wP wA wI wT l h)) = intensityField (pointFields h)"
  "timeStampField (pointFields (write_back wP wA wI wT l h)) = timeStampField (pointFields h)"
  "pointRangeNodeType (pointFields (write_back wP wA wI wT l h)) =
     pointRangeNodeType (pointFields h)"
  "angleNodeType (pointFields (write_back wP wA wI wT l h)) = angleNodeType (pointFields h)"
  "timeNodeType (pointFields (write_back wP wA wI wT l h)) = timeNodeType (pointFields h)"
  by (simp_all add: write_back_def Let_def)

lemma write_back_bounds:
  "pointRangeMinimum (pointFields (write_back wP wA wI wT l h)) =
     (if wP then loc_pointRangeMinimum l else pointRangeMinimum (pointFields h))"
  "pointRangeMaximum (pointFields (write_back wP wA wI wT l h)) =
     (if wP then loc_pointRangeMaximum l else pointRangeMaximum (pointFields h))"
  "angleMinimum (pointFields (write_back wP wA wI wT l h)) =
     (if wA then loc_angleMinimum l else angleMinimum (pointFields h))"
  "angleMaximum (pointFields (write_back wP wA wI wT l h)) =
     (if wA then loc_angleMaximum l else angleMaximum (pointFields h))"
  "intensityLimits (write_back wP wA wI wT l h) =
     (if wI then (intensityLimits h)\<lparr> intensityMinimum := loc_intensityMinimum l,
                                      intensityMaximum := loc_intensityMaximum l \<rparr>
      else intensityLimits h)"
  "timeMinimum (pointFields (write_back wP wA wI wT l h)) =
     (if wT then loc_timeMinimum l else timeMinimum (pointFields h))"
  "timeMaximum (pointFields (write_back wP wA wI wT l h)) =
     (if wT then loc_timeMaximum l else timeMaximum (pointFields h))"
  by (simp_all add: write_back_def Let_def)

lemma write_back_id:
  assumes "wP \<Longrightarrow> loc_pointRangeMinimum l = pointRangeMinimum (pointFields h) \<and>
                 loc_pointRangeMaximum l = pointRangeMaximum (pointFields h)"
    and "wA \<Longrightarrow> loc_angleMinimum l = angleMinimum (pointFields h) \<and>
                 loc_angleMaximum l = angleMaximum (pointFields h)"
    and "wI \<Longrightarrow> loc_intensityMinimum l = intensityMinimum (intensityLimits h) \<and>
                 loc_intensityMaximum l = intensityMaximum (intensityLimits h)"
    and "wT \<Longrightarrow> loc_timeMinimum l = timeMinimum (pointFields h) \<and>
                 loc_timeMaximum l = timeMaximum (pointFields h)"
  shows "write_back wP wA wI wT l h = h"
  using assms by (simp add: write_back_def Let_def)

lemma step_ok_flags:
  assumes "step_ok wP wA wI wT pf b j"
    and "wP' \<longrightarrow> wP" "wA' \<longrightarrow> wA" "wI' \<longrightarrow> wI" "wT' \<longrightarrow> wT"
    and "cartesianXField pf' = cartesianXField pf"
    and "sphericalRangeField pf' = sphericalRangeField pf"
  shows "step_ok wP' wA' wI' wT' pf' b j"
  using assms by (simp add: step_ok_def)

lemma step_pr_flags:
  assumes "cartesianXField pf' = cartesianXField pf"
    and "sphericalRangeField pf' = sphericalRangeField pf"
  shows "step_pr f w pf' b = step_pr f w pf b"
  using assms by (intro ext) (simp add: step_pr_def)

lemma init_locals_simps:
  "loc_pointRangeMinimum (init_locals T) = numeric_limits_max T"
  "loc_pointRangeMaximum (init_locals T) = numeric_limits_lowest T"
  "loc_angleMinimum (init_locals T) = numeric_limits_max T"
  "loc_angleMaximum (init_locals T) = numeric_limits_lowest T"
  "loc_intensityMinimum (init_locals T) = numeric_limits_max COORD_double"
  "loc_intensityMaximum (init_locals T) = numeric_limits_lowest COORD_double"
  "loc_timeMinimum (init_locals T) = numeric_limits_max COORD_double"
  "loc_timeMaximum (init_locals T) = numeric_limits_lowest COORD_double"
  by (simp_all add: init_locals_def)

lemma foldl_step_if:
  "foldl (step_pr f w pf b) a [0..n - 1] =
     (if w then accumulate f a (pointRange_samples pf b n) else a)"
  "foldl (step_an f w b) a [0..n - 1] = (if w then accumulate f a (angle_samples b n) else a)"
  "foldl (step_one f w p) a [0..n - 1] = (if w then accumulate f a (buffer_samples p n) else a)"
  by (cases w; simp add: foldl_step_off foldl_step_pr_on foldl_step_an_on foldl_step_one_on)+

lemma loop_result:
  "loc_pointRangeMinimum (foldl (pure_step wP wA wI wT pf b) (init_locals T) [0..n - 1]) =
     (if wP then accumulate std_min (numeric_limits_max T) (pointRange_samples pf b n)
      else numeric_limits_max T)"
  "loc_pointRangeMaximum (foldl (pure_step wP wA wI wT pf b) (init_locals T) [0..n - 1]) =
     (if wP then accumulate std_max (numeric_limits_lowest T) (pointRange_samples pf b n)
      else numeric_limits_lowest T)"
  "loc_angleMinimum (foldl (pure_step wP wA wI wT pf b) (init_locals T) [0..n - 1]) =
     (if wA then accumulate std_min (numeric_limits_max T) (angle_samples b n)
      else numeric_limits_max T)"
  "loc_angleMaximum (foldl (pure_step wP wA wI wT pf b) (init_locals T) [0..n - 1]) =
     (if wA then accumulate std_max (numeric_limits_lowest T) (angle_samples b n)
      else numeric_limits_lowest T)"
  "loc_intensityMinimum (foldl (pure_step wP wA wI wT pf b) (init_locals T) [0..n - 1]) =
     (if wI then accumulate std_min (numeric_limits_max COORD_double)
                   (buffer_samples (intensity b) n)
      else numeric_limits_max COORD_double)"
  "loc_intensityMaximum (foldl (pure_step wP wA wI wT pf b) (init_locals T) [0..n - 1]) =
     (if wI then accumulate std_max (numeric_limits_lowest COORD_double)
                   (buffer_samples (intensity b) n)
      else numeric_limits_lowest COORD_double)"
  "loc_timeMinimum (foldl (pure_step wP wA wI wT pf b) (init_locals T) [0..n - 1]) =
     (if wT then accumulate std_min (numeric_limits_max COORD_double)
                   (buffer_samples (timeStamp b) n)
      else numeric_limits_max COORD_double)"
  "loc_timeMaximum (foldl (pure_step wP wA wI wT pf b) (init_locals T) [0..n - 1]) =
     (if wT then accumulate std_max (numeric_limits_lowest COORD_double)
                   (buffer_samples (timeStamp b) n)
      else numeric_limits_lowest COORD_double)"
  by (simp_all only: foldl_pure_step_proj foldl_step_if init_locals_simps)

text \<open>The values a run that returns leaves in the header.\<close>

lemma fillMinMaxData_values:
  assumes "fillMinMaxData T lim0 h b = Inr h'"
  shows "pointRangeMinimum (pointFields h') =
           (if writePointRange T (pointFields h)
            then accumulate std_min (numeric_limits_max T)
                   (pointRange_samples (pointFields h) b (sint (pointCount h)))
            else pointRangeMinimum (pointFields h))"
    and "pointRangeMaximum (pointFields h') =
           (if writePointRange T (pointFields h)
            then accumulate std_max (numeric_limits_lowest T)
                   (pointRange_samples (pointFields h) b (sint (pointCount h)))
            else pointRangeMaximum (pointFields h))"
    and "angleMinimum (pointFields h') =
           (if writeAngle T (pointFields h)
            then accumulate std_min (numeric_limits_max T) (angle_samples b (sint (pointCount h)))
            else angleMinimum (pointFields h))"
    and "angleMaximum (pointFields h') =
           (if writeAngle T (pointFields h)
            then accumulate std_max (numeric_limits_lowest T)
                   (angle_samples b (sint (pointCount h)))
            else angleMaximum (pointFields h))"
    and "intensityLimits h' =
           (if writeIntensity lim0 h
            then (intensityLimits h)
                   \<lparr> intensityMinimum := accumulate std_min (numeric_limits_max COORD_double)
                        (buffer_samples (intensity b) (sint (pointCount h))),
                     intensityMaximum := accumulate std_max (numeric_limits_lowest COORD_double)
                        (buffer_samples (intensity b) (sint (pointCount h))) \<rparr>
            else intensityLimits h)"
    and "timeMinimum (pointFields h') =
           (if writeTimeStamp T (pointFields h)
            then accumulate std_min (numeric_limits_max COORD_double)
                   (buffer_samples (timeStamp b) (sint (pointCount h)))
            else timeMinimum (pointFields h))"
    and "timeMaximum (pointFields h') =
           (if writeTimeStamp T (pointFields h)
            then accumulate std_max (numeric_limits_lowest COORD_double)
                   (buffer_samples (timeStamp b) (sint (pointCount h)))
            else timeMaximum (pointFields h))"
proof -
  let ?wP = "writePointRange T (pointFields h)" and ?wA = "writeAngle T (pointFields h)"
  let ?wI = "writeIntensity lim0 h" and ?wT = "writeTimeStamp T (pointFields h)"
  let ?L = "foldl (pure_step ?wP ?wA ?wI ?wT (pointFields h) b) (init_locals T)
              [0..sint (pointCount h) - 1]"
  have h': "h' = write_back ?wP ?wA ?wI ?wT ?L h"
    using assms by (simp add: fillMinMaxData_eq split: if_splits)
  show "pointRangeMinimum (pointFields h') =
           (if ?wP then accumulate std_min (numeric_limits_max T)
                   (pointRange_samples (pointFields h) b (sint (pointCount h)))
            else pointRangeMinimum (pointFields h))"
    by (simp add: h' write_back_bounds loop_result)
  show "pointRangeMaximum (pointFields h') =
           (if ?wP then accumulate std_max (numeric_limits_lowest T)
                   (pointRange_samples (pointFields h) b (sint (pointCount h)))
            else pointRangeMaximum (pointFields h))"
    by (simp add: h' write_back_bounds loop_result)
  show "angleMinimum (pointFields h') =
           (if ?wA then accumulate std_min (numeric_limits_max T)
                   (angle_samples b (sint (pointCount h)))
            else angleMinimum (pointFields h))"
    by (simp add: h' write_back_bounds loop_result)
  show "angleMaximum (pointFields h') =
           (if ?wA then accumulate std_max (numeric_limits_lowest T)
                   (angle_samples b (sint (pointCount h)))
            else angleMaximum (pointFields h))"
    by (simp add: h' write_back_bounds loop_result)
  show "intensityLimits h' =
           (if ?wI
            then (intensityLimits h)
                   \<lparr> intensityMinimum := accumulate std_min (numeric_limits_max COORD_double)
                        (buffer_samples (intensity b) (sint (pointCount h))),
                     intensityMaximum := accumulate std_max (numeric_limits_lowest COORD_double)
                        (buffer_samples (intensity b) (sint (pointCount h))) \<rparr>
            else intensityLimits h)"
    by (simp add: h' write_back_bounds loop_result)
  show "timeMinimum (pointFields h') =
           (if ?wT then accumulate std_min (numeric_limits_max COORD_double)
                   (buffer_samples (timeStamp b) (sint (pointCount h)))
            else timeMinimum (pointFields h))"
    by (simp add: h' write_back_bounds loop_result)
  show "timeMaximum (pointFields h') =
           (if ?wT then accumulate std_max (numeric_limits_lowest COORD_double)
                   (buffer_samples (timeStamp b) (sint (pointCount h)))
            else timeMaximum (pointFields h))"
    by (simp add: h' write_back_bounds loop_result)
qed

lemma fillMinMaxData_frame:
  assumes "fillMinMaxData T lim0 h b = Inr h'"
  shows "pointCount h' = pointCount h"
    and "Data3D.more h' = Data3D.more h"
    and "PointStandardizedFieldsAvailable.more (pointFields h') =
           PointStandardizedFieldsAvailable.more (pointFields h)"
    and "cartesianXField (pointFields h') = cartesianXField (pointFields h)"
    and "sphericalRangeField (pointFields h') = sphericalRangeField (pointFields h)"
    and "sphericalAzimuthField (pointFields h') = sphericalAzimuthField (pointFields h)"
    and "sphericalElevationField (pointFields h') = sphericalElevationField (pointFields h)"
    and "intensityField (pointFields h') = intensityField (pointFields h)"
    and "timeStampField (pointFields h') = timeStampField (pointFields h)"
    and "pointRangeNodeType (pointFields h') = pointRangeNodeType (pointFields h)"
    and "angleNodeType (pointFields h') = angleNodeType (pointFields h)"
    and "timeNodeType (pointFields h') = timeNodeType (pointFields h)"
  using assms by (auto simp: fillMinMaxData_eq write_back_frame split: if_splits)

section \<open>Accumulating finite samples\<close>

lemma fp_le_Finite [simp]: "fp_le (Finite x) (Finite y) = (x \<le> y)"
  by (auto simp: fp_le_def)

lemma std_min_Finite [simp]: "std_min (Finite x) (Finite y) = Finite (min x y)"
  by (simp add: std_min_def min_def)

lemma std_max_Finite [simp]: "std_max (Finite x) (Finite y) = Finite (max x y)"
  by (simp add: std_max_def max_def)

lemma is_finite_D: "is_finite T v \<Longrightarrow> \<exists>r. v = Finite r \<and> - limit_max T \<le> r \<and> r \<le> limit_max T"
  by (cases v) (simp_all add: is_finite_def)

lemma accumulate_Cons: "accumulate f a (v # vs) = accumulate f (f v a) vs"
  by (simp add: accumulate_def)

lemma accumulate_Nil: "accumulate f a [] = a"
  by (simp add: accumulate_def)

lemma accumulate_min_lower:
  assumes "list_all (is_finite T) vs"
  shows "\<exists>m. accumulate std_min (Finite a) vs = Finite m \<and> m \<le> a \<and>
             list_all (\<lambda>v. fp_le (Finite m) v) vs"
  using assms
proof (induction vs arbitrary: a)
  case Nil
  show ?case by (simp add: accumulate_Nil)
next
  case (Cons v vs)
  from Cons.prems obtain r where v: "v = Finite r" and rest: "list_all (is_finite T) vs"
    using is_finite_D [of T v] by auto
  from Cons.IH [OF rest, of "min r a"] obtain m
    where m: "accumulate std_min (Finite (min r a)) vs = Finite m" "m \<le> min r a"
      "list_all (\<lambda>v. fp_le (Finite m) v) vs"
    by blast
  then show ?case
    by (simp add: accumulate_Cons v)
qed

lemma accumulate_max_upper:
  assumes "list_all (is_finite T) vs"
  shows "\<exists>m. accumulate std_max (Finite a) vs = Finite m \<and> a \<le> m \<and>
             list_all (\<lambda>v. fp_le v (Finite m)) vs"
  using assms
proof (induction vs arbitrary: a)
  case Nil
  show ?case by (simp add: accumulate_Nil)
next
  case (Cons v vs)
  from Cons.prems obtain r where v: "v = Finite r" and rest: "list_all (is_finite T) vs"
    using is_finite_D [of T v] by auto
  from Cons.IH [OF rest, of "max r a"] obtain m
    where m: "accumulate std_max (Finite (max r a)) vs = Finite m" "max r a \<le> m"
      "list_all (\<lambda>v. fp_le v (Finite m)) vs"
    by blast
  then show ?case
    by (simp add: accumulate_Cons v)
qed

lemma accumulate_select:
  assumes "\<And>x y. f x y = x \<or> f x y = y"
  shows "accumulate f a vs \<in> set (a # vs)"
proof (induction vs arbitrary: a)
  case Nil
  show ?case by (simp add: accumulate_Nil)
next
  case (Cons v vs)
  from Cons.IH [of "f v a"] assms [of v a] show ?case
    by (auto simp: accumulate_Cons)
qed

lemma accumulate_min_attained:
  assumes fin: "list_all (is_finite T) vs" and ne: "vs \<noteq> []"
  shows "accumulate std_min (numeric_limits_max T) vs \<in> set vs"
proof -
  from accumulate_min_lower [OF fin, of "limit_max T"] obtain m
    where m: "accumulate std_min (Finite (limit_max T)) vs = Finite m"
      and lower: "list_all (\<lambda>v. fp_le (Finite m) v) vs"
    by blast
  have sel: "accumulate std_min (Finite (limit_max T)) vs \<in> set (Finite (limit_max T) # vs)"
    by (rule accumulate_select) (simp add: std_min_def)
  show ?thesis
  proof (cases "Finite m \<in> set vs")
    case True
    then show ?thesis by (simp add: numeric_limits_max_def m)
  next
    case False
    with sel m have eq: "m = limit_max T" by simp
    from ne obtain v where v: "v \<in> set vs" by (cases vs) auto
    with fin obtain r where r: "v = Finite r" "r \<le> limit_max T"
      using is_finite_D [of T v] by (auto simp: list_all_iff)
    from lower v r have "m \<le> r" by (auto simp: list_all_iff)
    with r eq have "v = Finite m" by simp
    with v False show ?thesis by simp
  qed
qed

lemma accumulate_max_attained:
  assumes fin: "list_all (is_finite T) vs" and ne: "vs \<noteq> []"
  shows "accumulate std_max (numeric_limits_lowest T) vs \<in> set vs"
proof -
  from accumulate_max_upper [OF fin, of "- limit_max T"] obtain m
    where m: "accumulate std_max (Finite (- limit_max T)) vs = Finite m"
      and upper: "list_all (\<lambda>v. fp_le v (Finite m)) vs"
    by blast
  have sel: "accumulate std_max (Finite (- limit_max T)) vs \<in> set (Finite (- limit_max T) # vs)"
    by (rule accumulate_select) (simp add: std_max_def)
  show ?thesis
  proof (cases "Finite m \<in> set vs")
    case True
    then show ?thesis by (simp add: numeric_limits_lowest_def m)
  next
    case False
    with sel m have eq: "m = - limit_max T" by simp
    from ne obtain v where v: "v \<in> set vs" by (cases vs) auto
    with fin obtain r where r: "v = Finite r" "- limit_max T \<le> r"
      using is_finite_D [of T v] by (auto simp: list_all_iff)
    from upper v r have "r \<le> m" by (auto simp: list_all_iff)
    with r eq have "v = Finite m" by simp
    with v False show ?thesis by simp
  qed
qed

text \<open>Finite samples: the accumulated pair bounds every sample and, when there is a sample,
  both ends are samples, so the lower end is not above the upper end.\<close>

lemma accumulate_extrema:
  assumes fin: "list_all (is_finite T) vs"
  shows "bounds_all (accumulate std_min (numeric_limits_max T) vs)
           (accumulate std_max (numeric_limits_lowest T) vs) vs"
    and "vs \<noteq> [] \<Longrightarrow> attained (accumulate std_min (numeric_limits_max T) vs)
           (accumulate std_max (numeric_limits_lowest T) vs) vs"
    and "vs \<noteq> [] \<Longrightarrow> fp_le (accumulate std_min (numeric_limits_max T) vs)
           (accumulate std_max (numeric_limits_lowest T) vs)"
proof -
  let ?lo = "accumulate std_min (numeric_limits_max T) vs"
  let ?hi = "accumulate std_max (numeric_limits_lowest T) vs"
  from accumulate_min_lower [OF fin, of "limit_max T"]
  have lo: "list_all (\<lambda>v. fp_le ?lo v) vs"
    by (auto simp: numeric_limits_max_def)
  from accumulate_max_upper [OF fin, of "- limit_max T"]
  have hi: "list_all (\<lambda>v. fp_le v ?hi) vs"
    by (auto simp: numeric_limits_lowest_def)
  from lo hi show b: "bounds_all ?lo ?hi vs"
    by (simp add: bounds_all_def list_all_iff)
  show "attained ?lo ?hi vs" if "vs \<noteq> []"
    using accumulate_min_attained [OF fin that] accumulate_max_attained [OF fin that]
    by (simp add: attained_def)
  show "fp_le ?lo ?hi" if "vs \<noteq> []"
    using accumulate_min_attained [OF fin that] hi by (simp add: list_all_iff)
qed

section \<open>The facade and its conversions\<close>


lemma bindE_simps [simp]:
  "bindE (Inr a) f = f a"
  "bindE (Inl e) f = Inl e"
  by (simp_all add: bindE_def)

lemma WriteData3DData_log:
  assumes "fillMinMaxData T lim0 h buffers = Inr h1"
    and "impl_NewData3D impl h1 s = Inr (k, h2, s1)"
    and "impl_SetUpData3DPointsData impl k (static_cast_size_t (pointCount h2)) buffers s1
           = Inr (w, s2)"
    and "writer_write impl w (static_cast_size_t (pointCount h2)) s2 = Inr s3"
    and "writer_close impl w s3 = Inr s4"
  shows "WriteData3DData (logged impl) T lim0 h buffers (s, cs) =
           Inr (k, h2, (s4, cs @
             [Call_NewData3D h1,
              Call_SetUpData3DPointsData k (static_cast_size_t (pointCount h2)) buffers,
              Call_write w (static_cast_size_t (pointCount h2)),
              Call_close w]))"
  using assms by (simp add: WriteData3DData_def logged_def)

lemma WriteImage2DData_header_log:
  assumes "impl_NewImage2D impl hdr s = Inr (k, hdr', s1)"
    and "impl_WriteImage2DData impl k t j p startPos (static_cast_size_t byteCount) s1
           = Inr (written, s2)"
  shows "WriteImage2DData_header (logged impl) hdr t j startPos p byteCount (s, cs) =
           Inr (static_cast_int64_t written, hdr', (s2, cs @
             [Call_NewImage2D hdr,
              Call_WriteImage2DData k t j p startPos (static_cast_size_t byteCount)]))"
  using assms by (simp add: WriteImage2DData_header_def logged_def)

lemma WriteImage2DData_index_log:
  assumes "impl_WriteImage2DData impl k t j p start (static_cast_size_t count) s
           = Inr (written, s1)"
  shows "WriteImage2DData_index (logged impl) k t j p start count (s, cs) =
           Inr (static_cast_int64_t written, (s1, cs @
             [Call_WriteImage2DData k t j p start (static_cast_size_t count)]))"
  using assms by (simp add: WriteImage2DData_index_def logged_def)

lemma uint_static_cast_size_t:
  "uint (static_cast_size_t k) = sint k mod 2 ^ 64"
  unfolding static_cast_size_t_def by (simp only: uint_word_of_int) simp

lemma static_cast_size_t_negative:
  assumes "sint k < 0"
  shows "uint (static_cast_size_t k) = 2 ^ 64 + sint k"
    and "2 ^ 63 \<le> uint (static_cast_size_t k)"
proof -
  have lo: "- (2 ^ 63) \<le> sint k" using sint_ge [of k] by simp
  have "(sint k + 2 ^ 64) mod 2 ^ 64 = sint k + 2 ^ 64"
    using assms lo by (intro mod_pos_pos_trivial) simp_all
  moreover have "(sint k + 2 ^ 64) mod 2 ^ 64 = sint k mod 2 ^ 64"
    by simp
  ultimately have "sint k mod 2 ^ 64 = 2 ^ 64 + sint k"
    by simp
  then show "uint (static_cast_size_t k) = 2 ^ 64 + sint k"
    by (simp add: uint_static_cast_size_t)
  with lo show "2 ^ 63 \<le> uint (static_cast_size_t k)" by simp
qed

section \<open>Running the pass twice\<close>

lemma pointRange_samples_flags:
  assumes "cartesianXField pf' = cartesianXField pf"
    and "sphericalRangeField pf' = sphericalRangeField pf"
  shows "pointRange_samples pf' b n = pointRange_samples pf b n"
  using assms by (simp add: pointRange_samples_def)

lemma fillMinMaxData_ok:
  "(\<exists>h'. fillMinMaxData T lim0 h b = Inr h') =
     (\<forall>j. 0 \<le> j \<and> j < sint (pointCount h) \<longrightarrow>
        step_ok (writePointRange T (pointFields h)) (writeAngle T (pointFields h))
          (writeIntensity lim0 h) (writeTimeStamp T (pointFields h)) (pointFields h) b j)"
  by (simp add: fillMinMaxData_eq)

lemma fillMinMaxData_flags_mono:
  assumes r: "fillMinMaxData T lim0 h b = Inr h1"
  shows "writePointRange T (pointFields h1) \<Longrightarrow> writePointRange T (pointFields h)"
    and "writeAngle T (pointFields h1) \<Longrightarrow> writeAngle T (pointFields h)"
    and "writeIntensity lim0 h1 \<Longrightarrow> writeIntensity lim0 h"
    and "writeTimeStamp T (pointFields h1) \<Longrightarrow> writeTimeStamp T (pointFields h)"
proof -
  note fr = fillMinMaxData_frame [OF r] and vals = fillMinMaxData_values [OF r]
  show "writePointRange T (pointFields h)" if "writePointRange T (pointFields h1)"
  proof (rule ccontr)
    assume n: "\<not> writePointRange T (pointFields h)"
    with vals(1,2) have same: "pointRangeMinimum (pointFields h1) = pointRangeMinimum (pointFields h)"
      "pointRangeMaximum (pointFields h1) = pointRangeMaximum (pointFields h)"
      by simp_all
    have "writePointRange T (pointFields h1) = writePointRange T (pointFields h)"
      unfolding writePointRange_def by (simp only: same fr)
    with that n show False by simp
  qed
  show "writeAngle T (pointFields h)" if "writeAngle T (pointFields h1)"
  proof (rule ccontr)
    assume n: "\<not> writeAngle T (pointFields h)"
    with vals(3,4) have same: "angleMinimum (pointFields h1) = angleMinimum (pointFields h)"
      "angleMaximum (pointFields h1) = angleMaximum (pointFields h)"
      by simp_all
    have "writeAngle T (pointFields h1) = writeAngle T (pointFields h)"
      unfolding writeAngle_def by (simp only: same fr)
    with that n show False by simp
  qed
  show "writeIntensity lim0 h" if "writeIntensity lim0 h1"
  proof (rule ccontr)
    assume n: "\<not> writeIntensity lim0 h"
    with vals(5) have same: "intensityLimits h1 = intensityLimits h"
      by simp_all
    have "writeIntensity lim0 h1 = writeIntensity lim0 h"
      unfolding writeIntensity_def by (simp only: same fr)
    with that n show False by simp
  qed
  show "writeTimeStamp T (pointFields h)" if "writeTimeStamp T (pointFields h1)"
  proof (rule ccontr)
    assume n: "\<not> writeTimeStamp T (pointFields h)"
    with vals(6,7) have same: "timeMinimum (pointFields h1) = timeMinimum (pointFields h)"
      "timeMaximum (pointFields h1) = timeMaximum (pointFields h)"
      by simp_all
    have "writeTimeStamp T (pointFields h1) = writeTimeStamp T (pointFields h)"
      unfolding writeTimeStamp_def by (simp only: same fr)
    with that n show False by simp
  qed
qed

lemma fillMinMaxData_twice:
  assumes r: "fillMinMaxData T lim0 h b = Inr h1"
  shows "fillMinMaxData T lim0 h1 b = Inr h1"
proof -
  note fr = fillMinMaxData_frame [OF r] and vals = fillMinMaxData_values [OF r]
    and mono = fillMinMaxData_flags_mono [OF r]
  let ?wP = "writePointRange T (pointFields h1)" and ?wA = "writeAngle T (pointFields h1)"
  let ?wI = "writeIntensity lim0 h1" and ?wT = "writeTimeStamp T (pointFields h1)"
  let ?L = "foldl (pure_step ?wP ?wA ?wI ?wT (pointFields h1) b) (init_locals T)
              [0..sint (pointCount h1) - 1]"
  have samples: "pointRange_samples (pointFields h1) b (sint (pointCount h)) =
                 pointRange_samples (pointFields h) b (sint (pointCount h))"
    by (rule pointRange_samples_flags) (simp_all add: fr)
  from r have ok: "\<forall>j. 0 \<le> j \<and> j < sint (pointCount h) \<longrightarrow>
        step_ok (writePointRange T (pointFields h)) (writeAngle T (pointFields h))
          (writeIntensity lim0 h) (writeTimeStamp T (pointFields h)) (pointFields h) b j"
    using fillMinMaxData_ok [of T lim0 h b] by blast
  have ok1: "\<forall>j. 0 \<le> j \<and> j < sint (pointCount h1) \<longrightarrow>
        step_ok ?wP ?wA ?wI ?wT (pointFields h1) b j"
  proof (intro allI impI)
    fix j assume "0 \<le> j \<and> j < sint (pointCount h1)"
    with ok fr(1) have "step_ok (writePointRange T (pointFields h)) (writeAngle T (pointFields h))
          (writeIntensity lim0 h) (writeTimeStamp T (pointFields h)) (pointFields h) b j"
      by simp
    then show "step_ok ?wP ?wA ?wI ?wT (pointFields h1) b j"
      by (rule step_ok_flags) (use mono fr in blast)+
  qed
  have wb: "write_back ?wP ?wA ?wI ?wT ?L h1 = h1"
  proof (rule write_back_id)
    assume w: ?wP
    with mono(1) have "writePointRange T (pointFields h)" by simp
    with w vals(1,2) show "loc_pointRangeMinimum ?L = pointRangeMinimum (pointFields h1) \<and>
        loc_pointRangeMaximum ?L = pointRangeMaximum (pointFields h1)"
      by (simp add: loop_result fr(1) samples)
  next
    assume w: ?wA
    with mono(2) have "writeAngle T (pointFields h)" by simp
    with w vals(3,4) show "loc_angleMinimum ?L = angleMinimum (pointFields h1) \<and>
        loc_angleMaximum ?L = angleMaximum (pointFields h1)"
      by (simp add: loop_result fr(1))
  next
    assume w: ?wI
    with mono(3) have "writeIntensity lim0 h" by simp
    with w vals(5) show "loc_intensityMinimum ?L = intensityMinimum (intensityLimits h1) \<and>
        loc_intensityMaximum ?L = intensityMaximum (intensityLimits h1)"
      by (simp add: loop_result fr(1))
  next
    assume w: ?wT
    with mono(4) have "writeTimeStamp T (pointFields h)" by simp
    with w vals(6,7) show "loc_timeMinimum ?L = timeMinimum (pointFields h1) \<and>
        loc_timeMaximum ?L = timeMaximum (pointFields h1)"
      by (simp add: loop_result fr(1))
  qed
  from ok1 wb show ?thesis
    by (simp add: fillMinMaxData_eq)
qed

section \<open>Concrete runs\<close>


lemmas eval_defs = fillMinMaxData_def writePointRange_def writeAngle_def writeIntensity_def
    writeTimeStamp_def numeric_limits_lowest_def numeric_limits_max_def for_loop.simps
    loop_body_def body_cartesian_def body_sphericalRange_def body_angle_def body_intensity_def
    body_timeStamp_def deref_def std_min_def std_max_def init_locals_def write_back_def
    IntensityLimits_eq_def FLT_MAX_def DBL_MAX_def

lemma example_run:
  "fillMinMaxData COORD_float example_limits example_header example_buffers = Inr example_result"
  by (simp add: eval_defs example_header_def example_fields_def example_buffers_def
      example_limits_def example_result_def)

lemma empty_run:
  "fillMinMaxData COORD_float example_limits empty_header example_buffers = Inr empty_result"
  by (simp add: eval_defs example_header_def example_fields_def example_buffers_def
      example_limits_def empty_header_def empty_result_def)

lemma cartesian_run:
  "fillMinMaxData COORD_double example_limits cartesian_header cartesian_buffers =
     Inl UndefinedBehavior"
  by (simp add: eval_defs cartesian_header_def cartesian_fields_def cartesian_buffers_def
      example_limits_def)

lemma stray_run:
  "fillMinMaxData COORD_double example_limits cartesian_header stray_angle_buffers =
     Inr stray_angle_result"
  by (simp add: eval_defs cartesian_header_def cartesian_fields_def cartesian_buffers_def
      example_limits_def stray_angle_buffers_def stray_angle_result_def)

section \<open>Finite scans\<close>

lemma is_finite_valid: "is_finite T (val_at p j) \<Longrightarrow> valid_at p j"
  by (auto simp: is_finite_def val_at_def valid_at_def split: sum.splits)

lemma samples_at:
  assumes "0 \<le> j" "j < n"
  shows "list_all P (pointRange_samples pf b n) \<Longrightarrow> cartesianXField pf \<Longrightarrow>
           P (val_at (cartesianX b) j) \<and> P (val_at (cartesianY b) j) \<and> P (val_at (cartesianZ b) j)"
    and "list_all P (pointRange_samples pf b n) \<Longrightarrow> sphericalRangeField pf \<Longrightarrow>
           P (val_at (sphericalRange b) j)"
    and "list_all P (angle_samples b n) \<Longrightarrow>
           P (val_at (sphericalAzimuth b) j) \<and> P (val_at (sphericalElevation b) j)"
    and "list_all P (buffer_samples p n) \<Longrightarrow> P (val_at p j)"
  using assms
  by (auto simp: pointRange_samples_def angle_samples_def buffer_samples_def list_all_iff)

lemma samples_nonempty:
  assumes "1 \<le> n"
  shows "cartesianXField pf \<or> sphericalRangeField pf \<Longrightarrow> pointRange_samples pf b n \<noteq> []"
    and "angle_samples b n \<noteq> []"
    and "buffer_samples p n \<noteq> []"
proof -
  from assms have "[0..n - 1] = 0 # [1..n - 1]" by (simp add: upto_rec1)
  then show "cartesianXField pf \<or> sphericalRangeField pf \<Longrightarrow> pointRange_samples pf b n \<noteq> []"
    and "angle_samples b n \<noteq> []" and "buffer_samples p n \<noteq> []"
    by (auto simp: pointRange_samples_def angle_samples_def buffer_samples_def)
qed

lemma samples_empty:
  "n \<le> 0 \<Longrightarrow> pointRange_samples pf b n = []"
  "n \<le> 0 \<Longrightarrow> angle_samples b n = []"
  "n \<le> 0 \<Longrightarrow> buffer_samples p n = []"
  "\<not> cartesianXField pf \<Longrightarrow> \<not> sphericalRangeField pf \<Longrightarrow> pointRange_samples pf b n = []"
  by (simp_all add: pointRange_samples_def angle_samples_def buffer_samples_def)

lemma scanned_finite_ok:
  assumes fin: "scanned_finite T lim0 h b" and j: "0 \<le> j" "j < sint (pointCount h)"
  shows "step_ok (writePointRange T (pointFields h)) (writeAngle T (pointFields h))
           (writeIntensity lim0 h) (writeTimeStamp T (pointFields h)) (pointFields h) b j"
  unfolding step_ok_def
proof (intro conjI impI)
  assume "writePointRange T (pointFields h) \<and> cartesianXField (pointFields h)"
  with fin samples_at(1) [OF j, of "is_finite T" "pointFields h" b]
  have "is_finite T (val_at (cartesianX b) j) \<and> is_finite T (val_at (cartesianY b) j) \<and>
        is_finite T (val_at (cartesianZ b) j)"
    by (simp add: scanned_finite_def)
  then show "valid_at (cartesianX b) j" "valid_at (cartesianY b) j" "valid_at (cartesianZ b) j"
    by (blast intro: is_finite_valid)+
next
  assume "writePointRange T (pointFields h) \<and> sphericalRangeField (pointFields h)"
  with fin samples_at(2) [OF j, of "is_finite T" "pointFields h" b]
  show "valid_at (sphericalRange b) j"
    by (auto simp: scanned_finite_def intro: is_finite_valid)
next
  assume "writeAngle T (pointFields h)"
  with fin samples_at(3) [OF j, of "is_finite T" b]
  show "valid_at (sphericalAzimuth b) j" "valid_at (sphericalElevation b) j"
    by (auto simp: scanned_finite_def intro: is_finite_valid)
next
  assume "writeIntensity lim0 h"
  with fin samples_at(4) [OF j, of "is_finite COORD_double" "intensity b"]
  show "valid_at (intensity b) j"
    by (auto simp: scanned_finite_def intro: is_finite_valid)
next
  assume "writeTimeStamp T (pointFields h)"
  with fin samples_at(4) [OF j, of "is_finite COORD_double" "timeStamp b"]
  show "valid_at (timeStamp b) j"
    by (auto simp: scanned_finite_def intro: is_finite_valid)
qed

lemma scanned_finite_returns:
  assumes "scanned_finite T lim0 h b"
  shows "\<exists>h'. fillMinMaxData T lim0 h b = Inr h'"
  using scanned_finite_ok [OF assms] by (simp add: fillMinMaxData_ok)

lemma fillMinMaxData_finite:
  assumes fin: "scanned_finite T lim0 h b" and r: "fillMinMaxData T lim0 h b = Inr h'"
  shows "writePointRange T (pointFields h) \<Longrightarrow>
           bounds_all (pointRangeMinimum (pointFields h')) (pointRangeMaximum (pointFields h'))
             (pointRange_samples (pointFields h) b (sint (pointCount h)))"
    and "writePointRange T (pointFields h) \<Longrightarrow>
         pointRange_samples (pointFields h) b (sint (pointCount h)) \<noteq> [] \<Longrightarrow>
           attained (pointRangeMinimum (pointFields h')) (pointRangeMaximum (pointFields h'))
             (pointRange_samples (pointFields h) b (sint (pointCount h))) \<and>
           fp_le (pointRangeMinimum (pointFields h')) (pointRangeMaximum (pointFields h'))"
    and "writeAngle T (pointFields h) \<Longrightarrow>
           bounds_all (angleMinimum (pointFields h')) (angleMaximum (pointFields h'))
             (angle_samples b (sint (pointCount h)))"
    and "writeAngle T (pointFields h) \<Longrightarrow> angle_samples b (sint (pointCount h)) \<noteq> [] \<Longrightarrow>
           attained (angleMinimum (pointFields h')) (angleMaximum (pointFields h'))
             (angle_samples b (sint (pointCount h))) \<and>
           fp_le (angleMinimum (pointFields h')) (angleMaximum (pointFields h'))"
    and "writeIntensity lim0 h \<Longrightarrow>
           bounds_all (intensityMinimum (intensityLimits h')) (intensityMaximum (intensityLimits h'))
             (buffer_samples (intensity b) (sint (pointCount h)))"
    and "writeIntensity lim0 h \<Longrightarrow>
         buffer_samples (intensity b) (sint (pointCount h)) \<noteq> [] \<Longrightarrow>
           attained (intensityMinimum (intensityLimits h')) (intensityMaximum (intensityLimits h'))
             (buffer_samples (intensity b) (sint (pointCount h))) \<and>
           fp_le (intensityMinimum (intensityLimits h')) (intensityMaximum (intensityLimits h'))"
    and "writeTimeStamp T (pointFields h) \<Longrightarrow>
           bounds_all (timeMinimum (pointFields h')) (timeMaximum (pointFields h'))
             (buffer_samples (timeStamp b) (sint (pointCount h)))"
    and "writeTimeStamp T (pointFields h) \<Longrightarrow>
         buffer_samples (timeStamp b) (sint (pointCount h)) \<noteq> [] \<Longrightarrow>
           attained (timeMinimum (pointFields h')) (timeMaximum (pointFields h'))
             (buffer_samples (timeStamp b) (sint (pointCount h))) \<and>
           fp_le (timeMinimum (pointFields h')) (timeMaximum (pointFields h'))"
proof -
  note vals = fillMinMaxData_values [OF r]
  {
    assume w: "writePointRange T (pointFields h)"
    with fin have f: "list_all (is_finite T)
        (pointRange_samples (pointFields h) b (sint (pointCount h)))"
      by (simp add: scanned_finite_def)
    from w vals(1,2) accumulate_extrema(1) [OF f]
    show "bounds_all (pointRangeMinimum (pointFields h')) (pointRangeMaximum (pointFields h'))
             (pointRange_samples (pointFields h) b (sint (pointCount h)))"
      by simp
    assume "pointRange_samples (pointFields h) b (sint (pointCount h)) \<noteq> []"
    with w vals(1,2) accumulate_extrema(2,3) [OF f]
    show "attained (pointRangeMinimum (pointFields h')) (pointRangeMaximum (pointFields h'))
             (pointRange_samples (pointFields h) b (sint (pointCount h))) \<and>
           fp_le (pointRangeMinimum (pointFields h')) (pointRangeMaximum (pointFields h'))"
      by simp
  }
  {
    assume w: "writeAngle T (pointFields h)"
    with fin have f: "list_all (is_finite T) (angle_samples b (sint (pointCount h)))"
      by (simp add: scanned_finite_def)
    from w vals(3,4) accumulate_extrema(1) [OF f]
    show "bounds_all (angleMinimum (pointFields h')) (angleMaximum (pointFields h'))
             (angle_samples b (sint (pointCount h)))"
      by simp
    assume "angle_samples b (sint (pointCount h)) \<noteq> []"
    with w vals(3,4) accumulate_extrema(2,3) [OF f]
    show "attained (angleMinimum (pointFields h')) (angleMaximum (pointFields h'))
             (angle_samples b (sint (pointCount h))) \<and>
           fp_le (angleMinimum (pointFields h')) (angleMaximum (pointFields h'))"
      by simp
  }
  {
    assume w: "writeIntensity lim0 h"
    with fin have f: "list_all (is_finite COORD_double)
        (buffer_samples (intensity b) (sint (pointCount h)))"
      by (simp add: scanned_finite_def)
    from w vals(5) accumulate_extrema(1) [OF f]
    show "bounds_all (intensityMinimum (intensityLimits h')) (intensityMaximum (intensityLimits h'))
             (buffer_samples (intensity b) (sint (pointCount h)))"
      by simp
    assume "buffer_samples (intensity b) (sint (pointCount h)) \<noteq> []"
    with w vals(5) accumulate_extrema(2,3) [OF f]
    show "attained (intensityMinimum (intensityLimits h')) (intensityMaximum (intensityLimits h'))
             (buffer_samples (intensity b) (sint (pointCount h))) \<and>
           fp_le (intensityMinimum (intensityLimits h')) (intensityMaximum (intensityLimits h'))"
      by simp
  }
  {
    assume w: "writeTimeStamp T (pointFields h)"
    with fin have f: "list_all (is_finite COORD_double)
        (buffer_samples (timeStamp b) (sint (pointCount h)))"
      by (simp add: scanned_finite_def)
    from w vals(6,7) accumulate_extrema(1) [OF f]
    show "bounds_all (timeMinimum (pointFields h')) (timeMaximum (pointFields h'))
             (buffer_samples (timeStamp b) (sint (pointCount h)))"
      by simp
    assume "buffer_samples (timeStamp b) (sint (pointCount h)) \<noteq> []"
    with w vals(6,7) accumulate_extrema(2,3) [OF f]
    show "attained (timeMinimum (pointFields h')) (timeMaximum (pointFields h'))
             (buffer_samples (timeStamp b) (sint (pointCount h))) \<and>
           fp_le (timeMinimum (pointFields h')) (timeMaximum (pointFields h'))"
      by simp
  }
qed

lemma preset_run:
  "fillMinMaxData COORD_float example_limits preset_header example_buffers = Inr preset_result"
  by (simp add: eval_defs example_header_def example_fields_def example_buffers_def
      example_limits_def preset_header_def preset_result_def)

lemma nan_run:
  "fillMinMaxData COORD_float example_limits nan_header nan_buffers = Inr nan_result"
  by (simp add: eval_defs example_header_def example_fields_def example_buffers_def
      example_limits_def nan_header_def nan_buffers_def nan_result_def)

lemma inf_run:
  "fillMinMaxData COORD_float example_limits example_header inf_buffers = Inr inf_result"
  by (simp add: eval_defs example_header_def example_fields_def example_buffers_def
      example_limits_def inf_buffers_def inf_result_def)

section \<open>Accumulating samples that are numbers\<close>

lemma fp_le_refl: "a \<noteq> NaN \<Longrightarrow> fp_le a a"
  by (cases a) (simp_all add: fp_le_def)

lemma fp_le_trans: "fp_le a b \<Longrightarrow> fp_le b c \<Longrightarrow> fp_le a c"
  by (cases a; cases b; cases c) (auto simp: fp_le_def)

lemma std_min_number:
  assumes "v \<noteq> NaN" "a \<noteq> NaN"
  shows "std_min v a \<noteq> NaN \<and> fp_le (std_min v a) v \<and> fp_le (std_min v a) a"
  using assms by (cases v; cases a) (auto simp: std_min_def fp_le_def)

lemma std_max_number:
  assumes "v \<noteq> NaN" "a \<noteq> NaN"
  shows "std_max v a \<noteq> NaN \<and> fp_le v (std_max v a) \<and> fp_le a (std_max v a)"
  using assms by (cases v; cases a) (auto simp: std_max_def fp_le_def)

lemma accumulate_min_number:
  assumes "nan_free vs" "a \<noteq> NaN"
  shows "accumulate std_min a vs \<noteq> NaN \<and> fp_le (accumulate std_min a vs) a \<and>
         list_all (\<lambda>v. fp_le (accumulate std_min a vs) v) vs"
  using assms
proof (induction vs arbitrary: a)
  case Nil
  then show ?case by (simp add: accumulate_Nil fp_le_refl)
next
  case (Cons v vs)
  from Cons.prems have v: "v \<noteq> NaN" and rest: "nan_free vs"
    by (simp_all add: nan_free_def)
  note s = std_min_number [OF v Cons.prems(2)]
  from Cons.IH [OF rest, of "std_min v a"] s
  have ih: "accumulate std_min (std_min v a) vs \<noteq> NaN"
    "fp_le (accumulate std_min (std_min v a) vs) (std_min v a)"
    "list_all (\<lambda>u. fp_le (accumulate std_min (std_min v a) vs) u) vs"
    by simp_all
  from ih(2) s have "fp_le (accumulate std_min (std_min v a) vs) v"
    "fp_le (accumulate std_min (std_min v a) vs) a"
    by (blast intro: fp_le_trans)+
  with ih show ?case
    by (simp add: accumulate_Cons)
qed

lemma accumulate_max_number:
  assumes "nan_free vs" "a \<noteq> NaN"
  shows "accumulate std_max a vs \<noteq> NaN \<and> fp_le a (accumulate std_max a vs) \<and>
         list_all (\<lambda>v. fp_le v (accumulate std_max a vs)) vs"
  using assms
proof (induction vs arbitrary: a)
  case Nil
  then show ?case by (simp add: accumulate_Nil fp_le_refl)
next
  case (Cons v vs)
  from Cons.prems have v: "v \<noteq> NaN" and rest: "nan_free vs"
    by (simp_all add: nan_free_def)
  note s = std_max_number [OF v Cons.prems(2)]
  from Cons.IH [OF rest, of "std_max v a"] s
  have ih: "accumulate std_max (std_max v a) vs \<noteq> NaN"
    "fp_le (std_max v a) (accumulate std_max (std_max v a) vs)"
    "list_all (\<lambda>u. fp_le u (accumulate std_max (std_max v a) vs)) vs"
    by simp_all
  from ih(2) s have "fp_le v (accumulate std_max (std_max v a) vs)"
    "fp_le a (accumulate std_max (std_max v a) vs)"
    by (blast intro: fp_le_trans)+
  with ih show ?case
    by (simp add: accumulate_Cons)
qed

lemma accumulate_ordered:
  assumes nn: "nan_free vs" and ne: "vs \<noteq> []"
  shows "fp_le (accumulate std_min (numeric_limits_max T) vs)
           (accumulate std_max (numeric_limits_lowest T') vs)"
proof -
  from ne obtain v where v: "v \<in> set vs" by (cases vs) auto
  from accumulate_min_number [OF nn, of "numeric_limits_max T"] v
  have "fp_le (accumulate std_min (numeric_limits_max T) vs) v"
    by (simp add: numeric_limits_max_def list_all_iff)
  moreover from accumulate_max_number [OF nn, of "numeric_limits_lowest T'"] v
  have "fp_le v (accumulate std_max (numeric_limits_lowest T') vs)"
    by (simp add: numeric_limits_lowest_def list_all_iff)
  ultimately show ?thesis by (rule fp_le_trans)
qed

section \<open>Evaluating the concrete scans\<close>

lemma upto_0_1: "[0..(1::int)] = [0, 1]"
  by (simp add: upto_rec1)

lemma example_flags:
  "writePointRange COORD_float example_fields"
  "writeAngle COORD_float example_fields"
  "writeIntensity example_limits example_header"
  "writeTimeStamp COORD_float example_fields"
  "pointFields example_header = example_fields"
  "sint (pointCount example_header) = 2"
  "cartesianXField example_fields"
  "sphericalRangeField example_fields"
  by (simp_all add: writePointRange_def writeAngle_def writeIntensity_def writeTimeStamp_def
      IntensityLimits_eq_def numeric_limits_lowest_def numeric_limits_max_def
      example_fields_def example_header_def example_limits_def)

lemma example_samples:
  "pointRange_samples example_fields example_buffers 2 =
     [Finite 1, Finite (- 3), Finite 5, Finite 7, Finite 2, Finite 4, Finite 6, Finite 8]"
  "angle_samples example_buffers 2 = [Finite (1 / 2), Finite (1 / 4), Finite (- 1), Finite 1]"
  "buffer_samples (intensity example_buffers) 2 = [Finite 10, Finite 20]"
  "buffer_samples (timeStamp example_buffers) 2 = [Finite 100, Finite 200]"
  by (simp_all add: pointRange_samples_def angle_samples_def buffer_samples_def upto_0_1
      val_at_def deref_def example_fields_def example_buffers_def)

lemma example_finite:
  "scanned_finite COORD_float example_limits example_header example_buffers"
  by (simp add: scanned_finite_def example_flags example_samples is_finite_def FLT_MAX_def
      DBL_MAX_def)

lemma example_result_fields:
  "pointRangeMinimum (pointFields example_result) = Finite (- 3)"
  "pointRangeMaximum (pointFields example_result) = Finite 8"
  "angleMinimum (pointFields example_result) = Finite (- 1)"
  "angleMaximum (pointFields example_result) = Finite 1"
  "intensityMinimum (intensityLimits example_result) = Finite 10"
  "intensityMaximum (intensityLimits example_result) = Finite 20"
  "timeMinimum (pointFields example_result) = Finite 100"
  "timeMaximum (pointFields example_result) = Finite 200"
  by (simp_all add: example_result_def)

section \<open>Properties of the pass and of the facade\<close>

text \<open>
  C1. Take a header that declares at least one point and buffers in which every scanned
  sample is finite (so every scanned buffer is there and holds at least that many values).
  Then the pass returns, and for each family whose write precondition held
  the written minimum is at most every contributing sample, the written maximum is at least
  every contributing sample, and both are themselves contributing samples: they are the
  exact least and greatest sample. (The point-range family has contributing samples when the
  Cartesian or the spherical-range field is enabled; the other three families always have.)
\<close>

theorem fillMinMaxData_exact_extrema:
  assumes n: "1 \<le> sint (pointCount h)" and fin: "scanned_finite T lim0 h b"
  shows "\<exists>h'. fillMinMaxData T lim0 h b = Inr h' \<and>
    (writePointRange T (pointFields h) \<longrightarrow>
       bounds_all (pointRangeMinimum (pointFields h')) (pointRangeMaximum (pointFields h'))
         (pointRange_samples (pointFields h) b (sint (pointCount h))) \<and>
       (cartesianXField (pointFields h) \<or> sphericalRangeField (pointFields h) \<longrightarrow>
          attained (pointRangeMinimum (pointFields h')) (pointRangeMaximum (pointFields h'))
            (pointRange_samples (pointFields h) b (sint (pointCount h))))) \<and>
    (writeAngle T (pointFields h) \<longrightarrow>
       bounds_all (angleMinimum (pointFields h')) (angleMaximum (pointFields h'))
         (angle_samples b (sint (pointCount h))) \<and>
       attained (angleMinimum (pointFields h')) (angleMaximum (pointFields h'))
         (angle_samples b (sint (pointCount h)))) \<and>
    (writeIntensity lim0 h \<longrightarrow>
       bounds_all (intensityMinimum (intensityLimits h')) (intensityMaximum (intensityLimits h'))
         (buffer_samples (intensity b) (sint (pointCount h))) \<and>
       attained (intensityMinimum (intensityLimits h')) (intensityMaximum (intensityLimits h'))
         (buffer_samples (intensity b) (sint (pointCount h)))) \<and>
    (writeTimeStamp T (pointFields h) \<longrightarrow>
       bounds_all (timeMinimum (pointFields h')) (timeMaximum (pointFields h'))
         (buffer_samples (timeStamp b) (sint (pointCount h))) \<and>
       attained (timeMinimum (pointFields h')) (timeMaximum (pointFields h'))
         (buffer_samples (timeStamp b) (sint (pointCount h))))"
proof -
  from scanned_finite_returns [OF fin] obtain h' where r: "fillMinMaxData T lim0 h b = Inr h'"
    by blast
  note ext = fillMinMaxData_finite [OF fin r] and ne = samples_nonempty [OF n]
  have "writePointRange T (pointFields h) \<longrightarrow>
       bounds_all (pointRangeMinimum (pointFields h')) (pointRangeMaximum (pointFields h'))
         (pointRange_samples (pointFields h) b (sint (pointCount h))) \<and>
       (cartesianXField (pointFields h) \<or> sphericalRangeField (pointFields h) \<longrightarrow>
          attained (pointRangeMinimum (pointFields h')) (pointRangeMaximum (pointFields h'))
            (pointRange_samples (pointFields h) b (sint (pointCount h))))"
    using ext(1,2) ne(1) [of "pointFields h" b] by blast
  moreover have "writeAngle T (pointFields h) \<longrightarrow>
       bounds_all (angleMinimum (pointFields h')) (angleMaximum (pointFields h'))
         (angle_samples b (sint (pointCount h))) \<and>
       attained (angleMinimum (pointFields h')) (angleMaximum (pointFields h'))
         (angle_samples b (sint (pointCount h)))"
    using ext(3,4) ne(2) [of b] by blast
  moreover have "writeIntensity lim0 h \<longrightarrow>
       bounds_all (intensityMinimum (intensityLimits h')) (intensityMaximum (intensityLimits h'))
         (buffer_samples (intensity b) (sint (pointCount h))) \<and>
       attained (intensityMinimum (intensityLimits h')) (intensityMaximum (intensityLimits h'))
         (buffer_samples (intensity b) (sint (pointCount h)))"
    using ext(5,6) ne(3) [of "intensity b"] by blast
  moreover have "writeTimeStamp T (pointFields h) \<longrightarrow>
       bounds_all (timeMinimum (pointFields h')) (timeMaximum (pointFields h'))
         (buffer_samples (timeStamp b) (sint (pointCount h))) \<and>
       attained (timeMinimum (pointFields h')) (timeMaximum (pointFields h'))
         (buffer_samples (timeStamp b) (sint (pointCount h)))"
    using ext(7,8) ne(3) [of "timeStamp b"] by blast
  ultimately show ?thesis using r by blast
qed

theorem fillMinMaxData_exact_extrema_witness:
  "1 \<le> sint (pointCount example_header) \<and>
   scanned_finite COORD_float example_limits example_header example_buffers \<and>
   fillMinMaxData COORD_float example_limits example_header example_buffers = Inr example_result \<and>
   bounds_all (Finite (- 3)) (Finite 8) (pointRange_samples example_fields example_buffers 2) \<and>
   attained (Finite (- 3)) (Finite 8) (pointRange_samples example_fields example_buffers 2) \<and>
   bounds_all (Finite (- 1)) (Finite 1) (angle_samples example_buffers 2) \<and>
   attained (Finite (- 1)) (Finite 1) (angle_samples example_buffers 2) \<and>
   bounds_all (Finite 10) (Finite 20) (buffer_samples (intensity example_buffers) 2) \<and>
   attained (Finite 10) (Finite 20) (buffer_samples (intensity example_buffers) 2) \<and>
   bounds_all (Finite 100) (Finite 200) (buffer_samples (timeStamp example_buffers) 2) \<and>
   attained (Finite 100) (Finite 200) (buffer_samples (timeStamp example_buffers) 2)"
proof -
  have n: "1 \<le> sint (pointCount example_header)"
    by (simp add: example_flags)
  have fin: "scanned_finite COORD_float example_limits example_header example_buffers"
    by (rule example_finite)
  from fillMinMaxData_exact_extrema [OF n fin] show ?thesis
    using n fin
    by (simp add: example_run example_flags example_result_fields
        example_fields_def [symmetric])
qed

lemma loop_body_timeStamp_unread:
  "loop_body wP wA wI False pf (b\<lparr>timeStamp := ts\<rparr>) = loop_body wP wA wI False pf b"
proof (intro ext)
  fix i l
  have "step_ok wP wA wI False pf (b\<lparr>timeStamp := ts\<rparr>) i = step_ok wP wA wI False pf b i"
    by (simp add: step_ok_def)
  moreover have "step_pr f wP pf (b\<lparr>timeStamp := ts\<rparr>) a i = step_pr f wP pf b a i" for f a
    by (simp add: step_pr_def Let_def)
  moreover have "step_an f wA (b\<lparr>timeStamp := ts\<rparr>) a i = step_an f wA b a i" for f a
    by (simp add: step_an_def)
  ultimately show "loop_body wP wA wI False pf (b\<lparr>timeStamp := ts\<rparr>) i l =
      loop_body wP wA wI False pf b i l"
    by (simp add: loop_body_eq pure_step_def step_one_def)
qed

lemma fillMinMaxData_timeStamp_unread:
  assumes "\<not> writeTimeStamp T (pointFields h)"
  shows "fillMinMaxData T lim0 h (b\<lparr>timeStamp := ts\<rparr>) = fillMinMaxData T lim0 h b"
  using assms by (simp add: fillMinMaxData_def Let_def loop_body_timeStamp_unread)

text \<open>
  C2. When the pass returns, the only header members that can differ are the bounds of the
  four families: the point count, the enabling flags, the node types and every member the
  pass does not name are as before. A family whose write precondition is false (the quantity is
  not stored as scaled integer, or a bound differs from its sentinel because the caller
  supplied it, or the intensity or time-stamp field is disabled, or the intensity limits are
  not the default ones) keeps its bounds exactly, whatever the buffers hold. The buffers are an
  input of the pass only: it has no way to change them.
\<close>

theorem fillMinMaxData_frame_effect:
  assumes "fillMinMaxData T lim0 h b = Inr h'"
  shows "pointCount h' = pointCount h \<and>
    Data3D.more h' = Data3D.more h \<and>
    PointStandardizedFieldsAvailable.more (pointFields h') =
      PointStandardizedFieldsAvailable.more (pointFields h) \<and>
    cartesianXField (pointFields h') = cartesianXField (pointFields h) \<and>
    sphericalRangeField (pointFields h') = sphericalRangeField (pointFields h) \<and>
    sphericalAzimuthField (pointFields h') = sphericalAzimuthField (pointFields h) \<and>
    sphericalElevationField (pointFields h') = sphericalElevationField (pointFields h) \<and>
    intensityField (pointFields h') = intensityField (pointFields h) \<and>
    timeStampField (pointFields h') = timeStampField (pointFields h) \<and>
    pointRangeNodeType (pointFields h') = pointRangeNodeType (pointFields h) \<and>
    angleNodeType (pointFields h') = angleNodeType (pointFields h) \<and>
    timeNodeType (pointFields h') = timeNodeType (pointFields h) \<and>
    (\<not> writePointRange T (pointFields h) \<longrightarrow>
       pointRangeMinimum (pointFields h') = pointRangeMinimum (pointFields h) \<and>
       pointRangeMaximum (pointFields h') = pointRangeMaximum (pointFields h)) \<and>
    (\<not> writeAngle T (pointFields h) \<longrightarrow>
       angleMinimum (pointFields h') = angleMinimum (pointFields h) \<and>
       angleMaximum (pointFields h') = angleMaximum (pointFields h)) \<and>
    (\<not> writeIntensity lim0 h \<longrightarrow> intensityLimits h' = intensityLimits h) \<and>
    (\<not> writeTimeStamp T (pointFields h) \<longrightarrow>
       timeMinimum (pointFields h') = timeMinimum (pointFields h) \<and>
       timeMaximum (pointFields h') = timeMaximum (pointFields h))"
  using fillMinMaxData_frame [OF assms] fillMinMaxData_values [OF assms]
  by simp

lemma preset_facts:
  "pointFields preset_header =
     example_fields \<lparr> pointRangeMinimum := Finite 0, pointRangeMaximum := Finite 100 \<rparr>"
  "pointFields preset_result =
     example_fields \<lparr> pointRangeMinimum := Finite 0, pointRangeMaximum := Finite 100,
       angleMinimum := Finite (- 1), angleMaximum := Finite 1,
       timeMinimum := Finite 100, timeMaximum := Finite 200 \<rparr>"
  "pointCount preset_header = 2" "pointCount preset_result = 2"
  by (simp_all add: preset_header_def preset_result_def example_header_def)

theorem fillMinMaxData_frame_effect_witness:
  "fillMinMaxData COORD_float example_limits preset_header example_buffers = Inr preset_result \<and>
   \<not> writePointRange COORD_float (pointFields preset_header) \<and>
   pointRangeMinimum (pointFields preset_header) = Finite 0 \<and>
   pointRangeMaximum (pointFields preset_header) = Finite 100 \<and>
   pointRangeMinimum (pointFields preset_result) = Finite 0 \<and>
   pointRangeMaximum (pointFields preset_result) = Finite 100 \<and>
   pointCount preset_result = pointCount preset_header"
proof -
  have nw: "\<not> writePointRange COORD_float (pointFields preset_header)"
    by (simp add: preset_facts writePointRange_def numeric_limits_lowest_def FLT_MAX_def)
  have old: "pointRangeMinimum (pointFields preset_header) = Finite 0"
    "pointRangeMaximum (pointFields preset_header) = Finite 100"
    by (simp_all add: preset_facts)
  from fillMinMaxData_frame_effect [OF preset_run] nw old show ?thesis
    by (simp add: preset_run)
qed

text \<open>
  C3. When the point-range precondition holds and both the Cartesian fields and the
  spherical-range field are enabled, each point contributes its x, y, z and range sample, in
  this order, to one and the same sample sequence; the written point-range minimum is the
  running \<^verbatim>\<open>std::min\<close> over that sequence and the written point-range maximum the running
  \<^verbatim>\<open>std::max\<close> over it.
\<close>

theorem fillMinMaxData_pointRange_shared:
  assumes "writePointRange T (pointFields h)"
    and "cartesianXField (pointFields h)" and "sphericalRangeField (pointFields h)"
    and "fillMinMaxData T lim0 h b = Inr h'"
  shows "pointRangeMinimum (pointFields h') =
           accumulate std_min (numeric_limits_max T)
             (concat (map (\<lambda>i. [val_at (cartesianX b) i, val_at (cartesianY b) i,
                                  val_at (cartesianZ b) i, val_at (sphericalRange b) i])
                [0..sint (pointCount h) - 1])) \<and>
         pointRangeMaximum (pointFields h') =
           accumulate std_max (numeric_limits_lowest T)
             (concat (map (\<lambda>i. [val_at (cartesianX b) i, val_at (cartesianY b) i,
                                  val_at (cartesianZ b) i, val_at (sphericalRange b) i])
                [0..sint (pointCount h) - 1]))"
proof -
  have "pointRange_samples (pointFields h) b (sint (pointCount h)) =
          concat (map (\<lambda>i. [val_at (cartesianX b) i, val_at (cartesianY b) i,
                               val_at (cartesianZ b) i, val_at (sphericalRange b) i])
             [0..sint (pointCount h) - 1])"
    using assms(2,3) by (simp add: pointRange_samples_def)
  with fillMinMaxData_values(1,2) [OF assms(4)] assms(1) show ?thesis
    by simp
qed

theorem fillMinMaxData_pointRange_shared_witness:
  "writePointRange COORD_float (pointFields example_header) \<and>
   cartesianXField (pointFields example_header) \<and>
   sphericalRangeField (pointFields example_header) \<and>
   fillMinMaxData COORD_float example_limits example_header example_buffers = Inr example_result \<and>
   pointRangeMinimum (pointFields example_result) = Finite (- 3) \<and>
   pointRangeMaximum (pointFields example_result) = Finite 8 \<and>
   accumulate std_min (numeric_limits_max COORD_float)
     [Finite 1, Finite (- 3), Finite 5, Finite 7, Finite 2, Finite 4, Finite 6, Finite 8] =
     Finite (- 3) \<and>
   accumulate std_max (numeric_limits_lowest COORD_float)
     [Finite 1, Finite (- 3), Finite 5, Finite 7, Finite 2, Finite 4, Finite 6, Finite 8] =
     Finite 8"
proof -
  have a: "writePointRange COORD_float (pointFields example_header)"
    "cartesianXField (pointFields example_header)"
    "sphericalRangeField (pointFields example_header)"
    by (simp_all add: example_flags)
  have s: "concat (map (\<lambda>i. [val_at (cartesianX example_buffers) i,
              val_at (cartesianY example_buffers) i, val_at (cartesianZ example_buffers) i,
              val_at (sphericalRange example_buffers) i])
            [0..sint (pointCount example_header) - 1]) =
          [Finite 1, Finite (- 3), Finite 5, Finite 7, Finite 2, Finite 4, Finite 6, Finite 8]"
    by (simp add: example_flags upto_0_1 val_at_def deref_def example_buffers_def)
  from fillMinMaxData_pointRange_shared [OF a example_run] a show ?thesis
    by (simp add: s example_run example_result_fields)
qed

lemma cartesian_facts:
  "pointFields cartesian_header = cartesian_fields"
  "pointFields stray_angle_result =
     cartesian_fields \<lparr> pointRangeMinimum := Finite 1, pointRangeMaximum := Finite 3,
       angleMinimum := Finite 5, angleMaximum := Finite 7 \<rparr>"
  "timeStampField cartesian_fields = False"
  "sphericalAzimuthField cartesian_fields = False"
  "sphericalElevationField cartesian_fields = False"
  "timeMinimum cartesian_fields = Finite (- DBL_MAX)"
  "timeMaximum cartesian_fields = Finite DBL_MAX"
  by (simp_all add: cartesian_header_def stray_angle_result_def cartesian_fields_def)

text \<open>
  C4. In either instantiation, the time bounds are computed and written exactly when the
  time-stamp field is enabled, the time quantity is stored as scaled integer and both header
  bounds equal the sentinels (\<^verbatim>\<open>lowest()\<close> and \<^verbatim>\<open>max()\<close> of \<^verbatim>\<open>COORDTYPE\<close>): then the written
  bounds are the running \<^verbatim>\<open>std::min\<close> and \<^verbatim>\<open>std::max\<close> over the time stamps, started from the
  \<^verbatim>\<open>double\<close> extremes. Otherwise the time bounds stay as they were and the time-stamp buffer is
  not even read: the pass gives the same result whatever that buffer is.
\<close>

theorem fillMinMaxData_time_bounds:
  assumes "fillMinMaxData T lim0 h b = Inr h'"
  shows "(timeStampField (pointFields h) \<and> timeNodeType (pointFields h) = ScaledInteger \<and>
          fp_eq (timeMinimum (pointFields h)) (numeric_limits_lowest T) \<and>
          fp_eq (timeMaximum (pointFields h)) (numeric_limits_max T) \<longrightarrow>
            timeMinimum (pointFields h') =
              accumulate std_min (numeric_limits_max COORD_double)
                (buffer_samples (timeStamp b) (sint (pointCount h))) \<and>
            timeMaximum (pointFields h') =
              accumulate std_max (numeric_limits_lowest COORD_double)
                (buffer_samples (timeStamp b) (sint (pointCount h)))) \<and>
         (\<not> (timeStampField (pointFields h) \<and> timeNodeType (pointFields h) = ScaledInteger \<and>
             fp_eq (timeMinimum (pointFields h)) (numeric_limits_lowest T) \<and>
             fp_eq (timeMaximum (pointFields h)) (numeric_limits_max T)) \<longrightarrow>
            timeMinimum (pointFields h') = timeMinimum (pointFields h) \<and>
            timeMaximum (pointFields h') = timeMaximum (pointFields h) \<and>
            (\<forall>ts. fillMinMaxData T lim0 h (b\<lparr>timeStamp := ts\<rparr>) = Inr h'))"
proof -
  have w: "writeTimeStamp T (pointFields h) =
      (timeStampField (pointFields h) \<and> timeNodeType (pointFields h) = ScaledInteger \<and>
       fp_eq (timeMinimum (pointFields h)) (numeric_limits_lowest T) \<and>
       fp_eq (timeMaximum (pointFields h)) (numeric_limits_max T))"
    by (simp add: writeTimeStamp_def)
  have "\<forall>ts. fillMinMaxData T lim0 h (b\<lparr>timeStamp := ts\<rparr>) = Inr h'"
    if "\<not> writeTimeStamp T (pointFields h)"
    using fillMinMaxData_timeStamp_unread [OF that] assms by simp
  with fillMinMaxData_values(6,7) [OF assms] show ?thesis
    unfolding w [symmetric] by simp
qed

theorem fillMinMaxData_time_bounds_witness:
  "fillMinMaxData COORD_float example_limits example_header example_buffers = Inr example_result \<and>
   timeMinimum (pointFields example_result) = Finite 100 \<and>
   timeMaximum (pointFields example_result) = Finite 200 \<and>
   accumulate std_min (numeric_limits_max COORD_double) [Finite 100, Finite 200] = Finite 100 \<and>
   accumulate std_max (numeric_limits_lowest COORD_double) [Finite 100, Finite 200] = Finite 200 \<and>
   fillMinMaxData COORD_double example_limits cartesian_header stray_angle_buffers =
     Inr stray_angle_result \<and>
   timeMinimum (pointFields stray_angle_result) = timeMinimum (pointFields cartesian_header) \<and>
   timeMaximum (pointFields stray_angle_result) = timeMaximum (pointFields cartesian_header) \<and>
   fillMinMaxData COORD_double example_limits cartesian_header
     (stray_angle_buffers \<lparr> timeStamp := Some [NaN] \<rparr>) = Inr stray_angle_result"
proof -
  have p: "timeStampField (pointFields example_header) \<and>
      timeNodeType (pointFields example_header) = ScaledInteger \<and>
      fp_eq (timeMinimum (pointFields example_header)) (numeric_limits_lowest COORD_float) \<and>
      fp_eq (timeMaximum (pointFields example_header)) (numeric_limits_max COORD_float)"
    using example_flags(4) by (simp add: example_flags(5) writeTimeStamp_def)
  have q: "\<not> (timeStampField (pointFields cartesian_header) \<and>
      timeNodeType (pointFields cartesian_header) = ScaledInteger \<and>
      fp_eq (timeMinimum (pointFields cartesian_header)) (numeric_limits_lowest COORD_double) \<and>
      fp_eq (timeMaximum (pointFields cartesian_header)) (numeric_limits_max COORD_double))"
    by (simp add: cartesian_facts)
  from fillMinMaxData_time_bounds [OF example_run] p
    fillMinMaxData_time_bounds [OF stray_run] q
  show ?thesis
    by (simp add: example_run stray_run example_flags example_samples example_result_fields)
qed

text \<open>
  C5. A Cartesian-only scan: neither angle field is enabled and no angle buffer is supplied,
  but the angle quantity is configured as scaled integer with its bounds unset. The scan of
  the angle family is not scoped to the enabled fields: it reads the azimuth buffer all the
  same, here a null pointer. When the two angle arrays are supplied, they are scanned and
  their extremes written although both fields are disabled.
\<close>

theorem fillMinMaxData_angle_ignores_fields:
  "\<not> sphericalAzimuthField (pointFields cartesian_header) \<and>
   \<not> sphericalElevationField (pointFields cartesian_header) \<and>
   writeAngle COORD_double (pointFields cartesian_header) \<and>
   fillMinMaxData COORD_double example_limits cartesian_header cartesian_buffers =
     Inl UndefinedBehavior \<and>
   fillMinMaxData COORD_double example_limits cartesian_header stray_angle_buffers =
     Inr stray_angle_result \<and>
   angleMinimum (pointFields stray_angle_result) = Finite 5 \<and>
   angleMaximum (pointFields stray_angle_result) = Finite 7"
  by (simp add: cartesian_run stray_run cartesian_facts writeAngle_def cartesian_fields_def
      numeric_limits_lowest_def numeric_limits_max_def)

text \<open>
  C8. Running the pass a second time on the header it returned, with the same buffers,
  returns that header unchanged.
\<close>

theorem fillMinMaxData_idempotent:
  assumes "fillMinMaxData T lim0 h b = Inr h1"
  shows "fillMinMaxData T lim0 h1 b = Inr h1"
  using assms by (rule fillMinMaxData_twice)

theorem fillMinMaxData_idempotent_witness:
  "fillMinMaxData COORD_float example_limits example_header example_buffers = Inr example_result \<and>
   fillMinMaxData COORD_float example_limits example_result example_buffers = Inr example_result"
  using fillMinMaxData_idempotent [OF example_run] example_run by simp

lemma empty_facts:
  "pointFields empty_header = example_fields"
  "sint (pointCount empty_header) = 0"
  "pointRangeMinimum (pointFields empty_result) = Finite FLT_MAX"
  "pointRangeMaximum (pointFields empty_result) = Finite (- FLT_MAX)"
  by (simp_all add: empty_header_def empty_result_def example_header_def)

lemma inf_samples:
  "pointRange_samples example_fields inf_buffers 2 =
     [Finite 1, Finite (- 3), Finite 5, NegInf, Finite 2, Finite 4, Finite 6, PosInf]"
  "angle_samples inf_buffers 2 = [Finite (1 / 2), Finite (1 / 4), Finite (- 1), Finite 1]"
  "buffer_samples (intensity inf_buffers) 2 = [NaN, Finite 20]"
  "buffer_samples (timeStamp inf_buffers) 2 = [Finite 100, Finite 200]"
  by (simp_all add: pointRange_samples_def angle_samples_def buffer_samples_def upto_0_1
      val_at_def deref_def example_fields_def example_buffers_def inf_buffers_def)

lemma inf_result_fields:
  "pointRangeMinimum (pointFields inf_result) = NegInf"
  "pointRangeMaximum (pointFields inf_result) = PosInf"
  "angleMinimum (pointFields inf_result) = Finite (- 1)"
  "angleMaximum (pointFields inf_result) = Finite 1"
  "timeMinimum (pointFields inf_result) = Finite 100"
  "timeMaximum (pointFields inf_result) = Finite 200"
  by (simp_all add: inf_result_def)

lemma nan_facts:
  "pointFields nan_header = example_fields"
  "sint (pointCount nan_header) = 1"
  "timeMinimum (pointFields nan_result) = NaN"
  "timeMaximum (pointFields nan_result) = NaN"
  by (simp_all add: nan_header_def nan_result_def example_header_def)

text \<open>
  C9. The pass does not resolve every written family to a pair with the minimum at most the
  maximum. A header that declares no point, with the point range stored as scaled integer and
  its bounds unset, comes back with the point-range minimum at \<^verbatim>\<open>max()\<close> and the maximum at
  \<^verbatim>\<open>lowest()\<close>, the initial values of the two accumulators. A header that declares one point
  whose time stamp is not a number, with the time stored as scaled integer and its bounds
  unset, comes back with both time bounds not a number, and no comparison with such a value
  holds.
\<close>

theorem fillMinMaxData_unordered_bounds:
  "writePointRange COORD_float (pointFields empty_header) \<and>
   sint (pointCount empty_header) = 0 \<and>
   fillMinMaxData COORD_float example_limits empty_header example_buffers = Inr empty_result \<and>
   pointRangeMinimum (pointFields empty_result) = Finite FLT_MAX \<and>
   pointRangeMaximum (pointFields empty_result) = Finite (- FLT_MAX) \<and>
   \<not> fp_le (pointRangeMinimum (pointFields empty_result))
           (pointRangeMaximum (pointFields empty_result)) \<and>
   writeTimeStamp COORD_float (pointFields nan_header) \<and>
   sint (pointCount nan_header) = 1 \<and>
   fillMinMaxData COORD_float example_limits nan_header nan_buffers = Inr nan_result \<and>
   timeMinimum (pointFields nan_result) = NaN \<and>
   timeMaximum (pointFields nan_result) = NaN \<and>
   \<not> fp_le (timeMinimum (pointFields nan_result)) (timeMaximum (pointFields nan_result))"
  by (simp add: empty_run empty_facts nan_run nan_facts example_flags FLT_MAX_def fp_le_def)

text \<open>
  C9, amended. When the pass returns on a header that declares at least one point, every
  family it writes to which at least one sample contributed (for the point range: the
  Cartesian or the spherical-range field is enabled) and whose contributing samples are all
  numbers, finite or infinite, has its minimum at most its maximum. Nothing is asked of the
  samples of the other families.
\<close>

theorem fillMinMaxData_ordered_when_fed:
  assumes r: "fillMinMaxData T lim0 h b = Inr h'" and n: "1 \<le> sint (pointCount h)"
  shows "(writePointRange T (pointFields h) \<and>
          (cartesianXField (pointFields h) \<or> sphericalRangeField (pointFields h)) \<and>
          nan_free (pointRange_samples (pointFields h) b (sint (pointCount h))) \<longrightarrow>
            fp_le (pointRangeMinimum (pointFields h')) (pointRangeMaximum (pointFields h'))) \<and>
         (writeAngle T (pointFields h) \<and>
          nan_free (angle_samples b (sint (pointCount h))) \<longrightarrow>
            fp_le (angleMinimum (pointFields h')) (angleMaximum (pointFields h'))) \<and>
         (writeIntensity lim0 h \<and>
          nan_free (buffer_samples (intensity b) (sint (pointCount h))) \<longrightarrow>
            fp_le (intensityMinimum (intensityLimits h'))
                  (intensityMaximum (intensityLimits h'))) \<and>
         (writeTimeStamp T (pointFields h) \<and>
          nan_free (buffer_samples (timeStamp b) (sint (pointCount h))) \<longrightarrow>
            fp_le (timeMinimum (pointFields h')) (timeMaximum (pointFields h')))"
proof -
  note vals = fillMinMaxData_values [OF r] and ne = samples_nonempty [OF n]
  have "fp_le (pointRangeMinimum (pointFields h')) (pointRangeMaximum (pointFields h'))"
    if "writePointRange T (pointFields h)"
      "cartesianXField (pointFields h) \<or> sphericalRangeField (pointFields h)"
      "nan_free (pointRange_samples (pointFields h) b (sint (pointCount h)))"
    using vals(1,2) that(1)
      accumulate_ordered [OF that(3) ne(1) [OF that(2), where b = b], of T T]
    by simp
  moreover have "fp_le (angleMinimum (pointFields h')) (angleMaximum (pointFields h'))"
    if "writeAngle T (pointFields h)" "nan_free (angle_samples b (sint (pointCount h)))"
    using vals(3,4) that(1) accumulate_ordered [OF that(2) ne(2) [where b = b], of T T]
    by simp
  moreover have
    "fp_le (intensityMinimum (intensityLimits h')) (intensityMaximum (intensityLimits h'))"
    if "writeIntensity lim0 h"
      "nan_free (buffer_samples (intensity b) (sint (pointCount h)))"
    using vals(5) that(1)
      accumulate_ordered [OF that(2) ne(3) [where p = "intensity b"],
        of COORD_double COORD_double]
    by simp
  moreover have "fp_le (timeMinimum (pointFields h')) (timeMaximum (pointFields h'))"
    if "writeTimeStamp T (pointFields h)"
      "nan_free (buffer_samples (timeStamp b) (sint (pointCount h)))"
    using vals(6,7) that(1)
      accumulate_ordered [OF that(2) ne(3) [where p = "timeStamp b"],
        of COORD_double COORD_double]
    by simp
  ultimately show ?thesis by blast
qed

theorem fillMinMaxData_ordered_when_fed_witness:
  "fillMinMaxData COORD_float example_limits example_header inf_buffers = Inr inf_result \<and>
   1 \<le> sint (pointCount example_header) \<and>
   nan_free (pointRange_samples example_fields inf_buffers 2) \<and>
   pointRangeMinimum (pointFields inf_result) = NegInf \<and>
   pointRangeMaximum (pointFields inf_result) = PosInf \<and>
   fp_le (pointRangeMinimum (pointFields inf_result))
         (pointRangeMaximum (pointFields inf_result)) \<and>
   nan_free (angle_samples inf_buffers 2) \<and>
   fp_le (angleMinimum (pointFields inf_result)) (angleMaximum (pointFields inf_result)) \<and>
   nan_free (buffer_samples (timeStamp inf_buffers) 2) \<and>
   fp_le (timeMinimum (pointFields inf_result)) (timeMaximum (pointFields inf_result)) \<and>
   \<not> nan_free (buffer_samples (intensity inf_buffers) 2)"
proof -
  have n: "1 \<le> sint (pointCount example_header)"
    by (simp add: example_flags)
  have nn: "nan_free (pointRange_samples example_fields inf_buffers 2)"
    "nan_free (angle_samples inf_buffers 2)"
    "nan_free (buffer_samples (timeStamp inf_buffers) 2)"
    "\<not> nan_free (buffer_samples (intensity inf_buffers) 2)"
    by (simp_all add: nan_free_def inf_samples)
  from fillMinMaxData_ordered_when_fed [OF inf_run n] nn n show ?thesis
    by (simp add: inf_run example_flags inf_result_fields)
qed

lemma example_impl_simps:
  "impl_NewData3D example_impl h s = Inr (of_nat s, h, Suc s)"
  "impl_SetUpData3DPointsData example_impl k n b s = Inr (7, s)"
  "writer_write example_impl w n s = Inr s"
  "writer_close example_impl w s = Inr s"
  "impl_NewImage2D example_impl i s = Inr (of_nat s, i, Suc s)"
  "impl_WriteImage2DData example_impl k t j p start n s = Inr (n, s)"
  by (simp_all add: example_impl_def)

text \<open>
  C6. The single-shot flow, for either buffer type. When the pass returns the header \<open>h1\<close> and
  the implementation accepts each call, \<^verbatim>\<open>WriteData3DData\<close> asks the implementation, in this
  order and nothing else: \<^verbatim>\<open>NewData3D\<close> on the filled header \<open>h1\<close>, which yields the record
  index \<open>k\<close>; \<^verbatim>\<open>SetUpData3DPointsData\<close> for record \<open>k\<close> with the caller's buffers; one \<^verbatim>\<open>write\<close>
  of the header's point count on the writer it got; one \<^verbatim>\<open>close\<close> of that writer. It returns
  \<open>k\<close>. The point count is read from the header as \<^verbatim>\<open>NewData3D\<close> leaves it (the header is
  passed by reference); the pass itself never changes the declared count.
\<close>

theorem WriteData3DData_sequence:
  assumes "fillMinMaxData T lim0 h buffers = Inr h1"
    and "impl_NewData3D impl h1 s = Inr (k, h2, s1)"
    and "impl_SetUpData3DPointsData impl k (static_cast_size_t (pointCount h2)) buffers s1
           = Inr (w, s2)"
    and "writer_write impl w (static_cast_size_t (pointCount h2)) s2 = Inr s3"
    and "writer_close impl w s3 = Inr s4"
  shows "WriteData3DData (logged impl) T lim0 h buffers (s, cs) =
           Inr (k, h2, (s4, cs @
             [Call_NewData3D h1,
              Call_SetUpData3DPointsData k (static_cast_size_t (pointCount h2)) buffers,
              Call_write w (static_cast_size_t (pointCount h2)),
              Call_close w])) \<and>
         pointCount h1 = pointCount h"
  using WriteData3DData_log [OF assms] fillMinMaxData_frame(1) [OF assms(1)]
  by simp

theorem WriteData3DData_sequence_witness:
  "fillMinMaxData COORD_float example_limits example_header example_buffers = Inr example_result \<and>
   impl_NewData3D example_impl example_result 4 = Inr (4, example_result, 5) \<and>
   impl_SetUpData3DPointsData example_impl 4 2 example_buffers 5 = Inr (7, 5) \<and>
   writer_write example_impl 7 2 5 = Inr 5 \<and>
   writer_close example_impl 7 5 = Inr 5 \<and>
   WriteData3DData (logged example_impl) COORD_float example_limits example_header
       example_buffers (4, []) =
     Inr (4, example_result, (5,
       [Call_NewData3D example_result,
        Call_SetUpData3DPointsData 4 2 example_buffers,
        Call_write 7 2,
        Call_close 7]))"
proof -
  have n: "static_cast_size_t (pointCount example_result) = 2"
    by (simp add: static_cast_size_t_def example_result_def)
  have a: "impl_NewData3D example_impl example_result 4 = Inr (4, example_result, 5)"
    by (simp add: example_impl_simps)
  have b: "impl_SetUpData3DPointsData example_impl 4
      (static_cast_size_t (pointCount example_result)) example_buffers 5 = Inr (7, 5)"
    by (simp add: example_impl_simps)
  have c: "writer_write example_impl 7 (static_cast_size_t (pointCount example_result)) 5 = Inr 5"
    by (simp add: example_impl_simps)
  have d: "writer_close example_impl 7 5 = Inr 5"
    by (simp add: example_impl_simps)
  from WriteData3DData_sequence [OF example_run a b c d, of "[]"] show ?thesis
    by (simp add: n example_run example_impl_simps)
qed

text \<open>
  C7. The one-call image form. When the implementation accepts both calls, the facade asks
  it, in this order and nothing else: \<^verbatim>\<open>NewImage2D\<close> on the caller's header, as given, which
  yields the image index \<open>k\<close>; \<^verbatim>\<open>WriteImage2DData\<close> for image \<open>k\<close> with the caller's type,
  projection, buffer, start position and byte count. It returns the byte count the write
  reported. No bounds are computed: the header reaches \<^verbatim>\<open>NewImage2D\<close> untouched.
\<close>

theorem WriteImage2DData_one_call:
  assumes "impl_NewImage2D impl hdr s = Inr (k, hdr', s1)"
    and "impl_WriteImage2DData impl k t j p startPos (static_cast_size_t byteCount) s1
           = Inr (written, s2)"
  shows "WriteImage2DData_header (logged impl) hdr t j startPos p byteCount (s, cs) =
           Inr (static_cast_int64_t written, hdr', (s2, cs @
             [Call_NewImage2D hdr,
              Call_WriteImage2DData k t j p startPos (static_cast_size_t byteCount)]))"
  using assms by (rule WriteImage2DData_header_log)

theorem WriteImage2DData_one_call_witness:
  "impl_NewImage2D example_impl 11 4 = Inr (4, 11, 5) \<and>
   impl_WriteImage2DData example_impl 4 3 2 (Some [1, 2, 3]) 0 (static_cast_size_t 3) 5
     = Inr (3, 5) \<and>
   WriteImage2DData_header (logged example_impl) 11 3 2 0 (Some [1, 2, 3]) 3 (4, []) =
     Inr (3, 11, (5, [Call_NewImage2D 11, Call_WriteImage2DData 4 3 2 (Some [1, 2, 3]) 0 3]))"
proof -
  have n: "static_cast_size_t 3 = 3" "static_cast_int64_t 3 = 3"
    by (simp_all add: static_cast_size_t_def static_cast_int64_t_def)
  have a: "impl_NewImage2D example_impl 11 4 = Inr (4, 11, 5)"
    by (simp add: example_impl_simps)
  have b: "impl_WriteImage2DData example_impl 4 3 2 (Some [1, 2, 3]) 0 (static_cast_size_t 3) 5
     = Inr (3, 5)"
    by (simp add: example_impl_simps n)
  from WriteImage2DData_one_call [OF a b, of "[]"] show ?thesis
    by (simp add: n example_impl_simps)
qed

text \<open>
  C10. Both \<^verbatim>\<open>WriteImage2DData\<close> overloads hand the implementation, as the requested byte
  count, the signed 64-bit argument converted to \<^verbatim>\<open>size_t\<close>: its value modulo \<open>2 ^ 64\<close>. For a
  negative argument that is \<open>2 ^ 64\<close> plus the argument, at least \<open>2 ^ 63\<close>; the call is
  forwarded, not rejected.
\<close>

theorem WriteImage2DData_byteCount_conversion:
  assumes "impl_NewImage2D impl hdr s = Inr (k, hdr', s1)"
    and "impl_WriteImage2DData impl k t j p startPos (static_cast_size_t byteCount) s1
           = Inr (written, s2)"
    and "impl_WriteImage2DData impl k0 t j p startPos (static_cast_size_t byteCount) s
           = Inr (written0, s0)"
  shows "WriteImage2DData_header (logged impl) hdr t j startPos p byteCount (s, cs) =
           Inr (static_cast_int64_t written, hdr', (s2, cs @
             [Call_NewImage2D hdr,
              Call_WriteImage2DData k t j p startPos (static_cast_size_t byteCount)])) \<and>
         WriteImage2DData_index (logged impl) k0 t j p startPos byteCount (s, cs) =
           Inr (static_cast_int64_t written0, (s0, cs @
             [Call_WriteImage2DData k0 t j p startPos (static_cast_size_t byteCount)])) \<and>
         uint (static_cast_size_t byteCount) = sint byteCount mod 2 ^ 64 \<and>
         (sint byteCount < 0 \<longrightarrow>
            uint (static_cast_size_t byteCount) = 2 ^ 64 + sint byteCount \<and>
            2 ^ 63 \<le> uint (static_cast_size_t byteCount))"
  using WriteImage2DData_header_log [OF assms(1,2)] WriteImage2DData_index_log [OF assms(3)]
    uint_static_cast_size_t [of byteCount] static_cast_size_t_negative [of byteCount]
  by simp

theorem WriteImage2DData_byteCount_conversion_witness:
  "impl_NewImage2D example_impl 11 4 = Inr (4, 11, 5) \<and>
   impl_WriteImage2DData example_impl 4 3 2 None 0 (static_cast_size_t (- 1)) 5
     = Inr (18446744073709551615, 5) \<and>
   impl_WriteImage2DData example_impl 9 3 2 None 0 (static_cast_size_t (- 1)) 4
     = Inr (18446744073709551615, 4) \<and>
   sint (- 1 :: int64_t) < 0 \<and>
   WriteImage2DData_header (logged example_impl) 11 3 2 0 None (- 1) (4, []) =
     Inr (- 1, 11, (5,
       [Call_NewImage2D 11, Call_WriteImage2DData 4 3 2 None 0 18446744073709551615])) \<and>
   WriteImage2DData_index (logged example_impl) 9 3 2 None 0 (- 1) (4, []) =
     Inr (- 1, (4, [Call_WriteImage2DData 9 3 2 None 0 18446744073709551615])) \<and>
   uint (static_cast_size_t (- 1)) = 18446744073709551615"
proof -
  have n: "static_cast_size_t (- 1) = 18446744073709551615"
    "static_cast_int64_t 18446744073709551615 = - 1"
    by (simp_all add: static_cast_size_t_def static_cast_int64_t_def)
  have neg: "sint (- 1 :: int64_t) < 0"
    by simp
  have a: "impl_NewImage2D example_impl 11 4 = Inr (4, 11, 5)"
    by (simp add: example_impl_simps)
  have b: "impl_WriteImage2DData example_impl 4 3 2 None 0 (static_cast_size_t (- 1)) 5
     = Inr (18446744073709551615, 5)"
    by (simp add: example_impl_simps n)
  have c: "impl_WriteImage2DData example_impl 9 3 2 None 0 (static_cast_size_t (- 1)) 4
     = Inr (18446744073709551615, 4)"
    by (simp add: example_impl_simps n)
  from WriteImage2DData_byteCount_conversion [OF a b c, of "[]"] neg show ?thesis
    by (simp add: n example_impl_simps)
qed

end
